theory Spec2Isabelle
  imports Complex_Main
begin

section \<open>Data model of the payment controllers\<close>

text \<open>
  The controllers keep every payment in the process-wide object
  \<^verbatim>\<open>global.pendingPayments\<close>, keyed by the merchant transaction id. The objects
  stored there are open JavaScript objects; the record below has one field for every
  property that some handler writes. A property that was never written reads as
  \<^verbatim>\<open>undefined\<close>, which is \<open>None\<close> here.

  Conventions of the embedding:
  \<^item> a JavaScript string property that may be \<^verbatim>\<open>undefined\<close> is a \<open>string option\<close>;
  \<^item> the store is a map over the own keys of \<^verbatim>\<open>global.pendingPayments\<close>. That object is a
    plain \<^verbatim>\<open>{}\<close>, so a lookup under a name it inherits finds something that is not a
    payment; the handlers are modelled for ids that are no such name (\<open>inherited_name\<close>
    below), and every statement about an id that is not in the store says so;
  \<^item> the fields of a request body or query are JSON scalars or absent. A truthy scalar that is
    not a string stands as the string JavaScript prints for it, a falsy one (\<^verbatim>\<open>0\<close>,
    \<^verbatim>\<open>false\<close>, \<^verbatim>\<open>null\<close>, the empty string) as an absent one or the empty string; the
    amount, which the handlers coerce to numbers, is kept as what the coercions give;
  \<^item> every call that leaves the process (provider SDK or REST call, mail transport,
    Firestore write) and every \<^verbatim>\<open>console.error\<close> is appended to a trace, in the
    order the code issues it; \<^verbatim>\<open>console.log\<close> is not traced;
  \<^item> what the outside world answers (provider responses, whether the mail transport
    and Firestore succeed, the clock) is an argument of the handler;
  \<^item> configuration read from \<^verbatim>\<open>process.env\<close> is taken to be present.
\<close>

text \<open>The value of an \<^verbatim>\<open>amount\<close> property: a JavaScript number (every finite double is a
  rational; the infinities and \<^verbatim>\<open>NaN\<close> stand beside them), or the string the PayPal
  capture path stores.\<close>

datatype jsamount = Num rat | PosInfinity | NegInfinity | NaN | Text string

text \<open>
  The \<^verbatim>\<open>amount\<close> of a request body. The handlers never look at the value itself, only at
  three coercions of it, which are JavaScript's and not the controllers': its
  truthiness (\<^verbatim>\<open>!amount\<close>), \<^verbatim>\<open>Number(amount)\<close> (inside \<^verbatim>\<open>isNaN(amount)\<close> and
  \<^verbatim>\<open>amount <= 0\<close>) and \<^verbatim>\<open>parseFloat(amount)\<close>. The request carries what each of them
  gives, so that every scalar is covered: for the string \<^verbatim>\<open>12abc\<close> they are true,
  \<^verbatim>\<open>NaN\<close> and 12; for the string \<^verbatim>\<open>0\<close> true, 0 and 0; for \<^verbatim>\<open>true\<close> true, 1 and \<^verbatim>\<open>NaN\<close>.
  The two numbers are never a \<open>Text\<close>.
\<close>

record amount_in =
  am_truthy :: bool
  am_number :: jsamount
  am_parsed :: jsamount

text \<open>A JSON number, and an amount that is absent (\<^verbatim>\<open>undefined\<close>).\<close>

definition json_number :: "rat \<Rightarrow> amount_in" where
  "json_number x = \<lparr>am_truthy = (x \<noteq> 0), am_number = Num x, am_parsed = Num x\<rparr>"

definition absent_amount :: amount_in where
  "absent_amount = \<lparr>am_truthy = False, am_number = NaN, am_parsed = NaN\<rparr>"

text \<open>
  The names under which \<^verbatim>\<open>global.pendingPayments[id]\<close> can be truthy although no payment
  was ever stored under \<open>id\<close>: the names a plain object inherits from
  \<^verbatim>\<open>Object.prototype\<close>, and the property names of a payment, which become inherited
  names as well once a handler has written to what it found under \<^verbatim>\<open>__proto__\<close>, or
  stored a payment under that name.
\<close>

definition inherited_name :: "string \<Rightarrow> bool" where
  "inherited_name k = (k \<in> set [''constructor'', ''__proto__'', ''toString'',
     ''toLocaleString'', ''valueOf'', ''hasOwnProperty'', ''isPrototypeOf'',
     ''propertyIsEnumerable'', ''__defineGetter__'', ''__defineSetter__'',
     ''__lookupGetter__'', ''__lookupSetter__'',
     ''merchantTransactionId'', ''amount'', ''customerName'', ''customerEmail'',
     ''customerPhone'', ''ecommPlan'', ''hostingPlan'', ''status'', ''createdAt'',
     ''updatedAt'', ''verifiedAt'', ''phonepeOrderId'', ''redirectUrl'', ''expireAt'',
     ''cashfreeOrderId'', ''paymentSessionId'', ''paymentDetails'', ''webhookData'',
     ''paypalCaptureData'', ''paymentMethod''])"

subsection \<open>Provider payloads\<close>

record phonepe_detail =
  pd_state :: "string option"
  pd_errorCode :: "string option"
  pd_detailedErrorCode :: "string option"

text \<open>The answer of \<^verbatim>\<open>client.getOrderStatus\<close>.\<close>

record phonepe_status =
  ps_state :: "string option"
  ps_paymentDetails :: "phonepe_detail list option"

text \<open>The answer of \<^verbatim>\<open>client.pay\<close>.\<close>

record phonepe_pay =
  pay_redirectUrl :: "string option"
  pay_orderId :: "string option"
  pay_expireAt :: "string option"

text \<open>\<^verbatim>\<open>response.data\<close> of the Cashfree SDK (\<^verbatim>\<open>PGCreateOrder\<close>, \<^verbatim>\<open>PGFetchOrder\<close>).\<close>

record cashfree_order =
  cf_order_id :: "string option"
  cf_order_status :: "string option"
  cf_payment_session_id :: "string option"

text \<open>The body of a Cashfree webhook, as far as the handler reads it:
  \<^verbatim>\<open>eventData.data?.order?.order_id\<close> and \<^verbatim>\<open>eventData.data?.order?.order_status\<close>.\<close>

record cashfree_event =
  ev_order_id :: "string option"
  ev_order_status :: "string option"

text \<open>\<^verbatim>\<open>captureResponse.data\<close> of the PayPal capture call.\<close>

record paypal_payments =
  pp_captures :: "string option list option"

record paypal_unit =
  pu_description :: "string option"
  pu_payments :: "paypal_payments option"

record paypal_capture =
  cap_status :: "string option"
  cap_given_name :: "string option"
  cap_surname :: "string option"
  cap_email_address :: "string option"
  cap_purchase_units :: "paypal_unit list option"

datatype raw_payload =
    PhonePeStatus "phonepe_status option"
  | PhonePePay "phonepe_pay option"
  | CashfreeOrder "cashfree_order option"
  | CashfreeEvent cashfree_event
  | PayPalCapture paypal_capture

subsection \<open>The stored payment and the store\<close>

record payment =
  merchantTransactionId :: string
  amount :: jsamount
  customerName :: "string option"
  customerEmail :: "string option"
  customerPhone :: "string option"
  ecommPlan :: "string option"
  hostingPlan :: "string option"
  status :: "string option"
  createdAt :: "string option"
  updatedAt :: "string option"
  verifiedAt :: "string option"
  phonepeOrderId :: "string option"
  redirectUrl :: "string option"
  expireAt :: "string option"
  cashfreeOrderId :: "string option"
  paymentSessionId :: "string option"
  paymentDetails :: "raw_payload option"
  webhookData :: "raw_payload option"
  paypalCaptureData :: "raw_payload option"
  paymentMethod :: "string option"

text \<open>The document written to the Firestore collection \<^verbatim>\<open>payments\<close>.\<close>

record payment_doc =
  doc_name :: string
  doc_email :: string
  doc_phone :: string
  doc_id :: string
  doc_amount :: jsamount
  doc_status :: string
  doc_paymentMethod :: string
  doc_createdAt :: string
  doc_updatedAt :: string
  doc_ecommPlan :: string
  doc_hostingPlan :: string

datatype effect =
    SendMail string payment
  | FirestoreSet string payment_doc
  | PhonePePayCall string
  | PhonePeGetOrderStatus string
  | CashfreeCreateOrder string
  | CashfreeFetchOrder string
  | PayPalToken
  | PayPalCreateOrder
  | PayPalCaptureCall string
  | ConsoleError string

record world =
  pendingPayments :: "string \<rightharpoonup> payment"
  effects :: "effect list"

text \<open>What the outside world does during one request: the clock readings, and whether
  \<^verbatim>\<open>transporter.sendMail\<close> and the Firestore \<^verbatim>\<open>set\<close> resolve.\<close>

record io =
  now :: string
  now_archive :: string
  now_doc :: string
  mailOk :: bool
  firestoreOk :: bool

text \<open>The JSON answer of a handler: \<^verbatim>\<open>res.status(code).json({...})\<close>.\<close>

record response =
  res_code :: nat
  res_success :: bool
  res_status :: "string option"
  res_message :: "string option"
  res_data :: "raw_payload option"
  res_redirectUrl :: "string option"
  res_merchantTransactionId :: "string option"
  res_orderId :: "string option"
  res_paymentSessionId :: "string option"

definition reply :: "nat \<Rightarrow> bool \<Rightarrow> response" where
  "reply c s = \<lparr>res_code = c, res_success = s, res_status = None, res_message = None,
     res_data = None, res_redirectUrl = None, res_merchantTransactionId = None,
     res_orderId = None, res_paymentSessionId = None\<rparr>"

subsection \<open>JavaScript coercions used by the handlers\<close>

text \<open>\<^verbatim>\<open>!x\<close> for a string that may be undefined.\<close>

definition falsy :: "string option \<Rightarrow> bool" where
  "falsy x = (case x of None \<Rightarrow> True | Some s \<Rightarrow> s = [])"

text \<open>\<^verbatim>\<open>x || d\<close> for a string that may be undefined.\<close>

definition or_else :: "string option \<Rightarrow> string \<Rightarrow> string" where
  "or_else x d = (case x of None \<Rightarrow> d | Some s \<Rightarrow> if s = [] then d else s)"

text \<open>A value inside a template literal.\<close>

definition js_str :: "string option \<Rightarrow> string" where
  "js_str x = (case x of None \<Rightarrow> ''undefined'' | Some s \<Rightarrow> s)"

text \<open>\<^verbatim>\<open>paymentData.amount || 0\<close>.\<close>

definition amount_or_zero :: "jsamount \<Rightarrow> jsamount" where
  "amount_or_zero a = (case a of Num n \<Rightarrow> Num n | NaN \<Rightarrow> Num 0
     | PosInfinity \<Rightarrow> PosInfinity | NegInfinity \<Rightarrow> NegInfinity
     | Text s \<Rightarrow> if s = [] then Num 0 else Text s)"

section \<open>The two side effects\<close>

text \<open>The document \<^verbatim>\<open>paymentDoc\<close> that \<^verbatim>\<open>storePaymentData\<close> formats from its argument.\<close>

definition paymentDoc :: "io \<Rightarrow> payment \<Rightarrow> payment_doc" where
  "paymentDoc e paymentData = \<lparr>
     doc_name = or_else (customerName paymentData) [],
     doc_email = or_else (customerEmail paymentData) [],
     doc_phone = or_else (customerPhone paymentData) [],
     doc_id = merchantTransactionId paymentData,
     doc_amount = amount_or_zero (amount paymentData),
     doc_status = or_else (status paymentData) ''UNKNOWN'',
     doc_paymentMethod = or_else (paymentMethod paymentData) ''unknown'',
     doc_createdAt = or_else (createdAt paymentData) (now_doc e),
     doc_updatedAt = or_else (updatedAt paymentData) (now_doc e),
     doc_ecommPlan = or_else (ecommPlan paymentData) [],
     doc_hostingPlan = or_else (hostingPlan paymentData) []\<rparr>"

text \<open>\<^verbatim>\<open>storePaymentData\<close>: the whole body is inside \<^verbatim>\<open>try\<close>; a rejected write is logged
  and \<^verbatim>\<open>null\<close> (\<open>None\<close>) is returned, nothing is thrown.\<close>

definition storePaymentData :: "io \<Rightarrow> payment \<Rightarrow> effect list \<Rightarrow> string option \<times> effect list" where
  "storePaymentData e paymentData tr =
     (let tr1 = tr @ [FirestoreSet (merchantTransactionId paymentData) (paymentDoc e paymentData)]
      in if firestoreOk e then (Some (merchantTransactionId paymentData), tr1)
         else (None, tr1 @ [ConsoleError ''Error storing payment data in Firestore:'']))"

text \<open>\<^verbatim>\<open>sendAdminNotificationEmail\<close>: again the whole body is inside \<^verbatim>\<open>try\<close>; the result is
  \<^verbatim>\<open>true\<close> or \<^verbatim>\<open>false\<close>, nothing is thrown. The mail is represented by its subject and
  the payment details it is rendered from.\<close>

definition sendAdminNotificationEmail :: "io \<Rightarrow> payment \<Rightarrow> effect list \<Rightarrow> bool \<times> effect list" where
  "sendAdminNotificationEmail e details tr =
     (let subject = ''New Client Alert: '' @ js_str (customerName details)
                      @ '' has made a payment!'';
          tr1 = tr @ [SendMail subject details]
      in if mailOk e then (True, tr1)
         else (False, tr1 @ [ConsoleError ''Error sending admin notification email:'']))"

text \<open>The block both verification handlers, the webhook and the capture handler run on
  success: notify, then archive a copy of the payment marked \<^verbatim>\<open>COMPLETED\<close>. Both calls
  sit in their own \<^verbatim>\<open>try\<close>; since neither callee throws, the \<^verbatim>\<open>catch\<close> arms are dead.\<close>

definition dispatch :: "io \<Rightarrow> string \<Rightarrow> payment \<Rightarrow> effect list \<Rightarrow> effect list" where
  "dispatch e method paymentInfo tr =
     (let tr1 = snd (sendAdminNotificationEmail e paymentInfo tr);
          firestorePaymentData = paymentInfo\<lparr>paymentMethod := Some method,
             status := Some ''COMPLETED'', updatedAt := Some (now_archive e)\<rparr>
      in snd (storePaymentData e firestorePaymentData tr1))"

section \<open>Cashfree: verification and webhook\<close>

text \<open>The body of the \<^verbatim>\<open>try\<close> of \<^verbatim>\<open>verifyCashfreePayment\<close>. \<open>fetch\<close> is what
  \<^verbatim>\<open>cashfree.PGFetchOrder\<close> does: \<open>Inl msg\<close> when it throws (with the message the
  \<^verbatim>\<open>catch\<close> arm prints), \<open>Inr d\<close> when it returns a response whose \<^verbatim>\<open>data\<close> is \<open>d\<close>.
  The result is the world at the point of return or throw, and the answer or the
  thrown message.\<close>

definition verifyCashfreePayment_try ::
  "io \<Rightarrow> (string + cashfree_order option) \<Rightarrow> string \<Rightarrow> world \<Rightarrow> world \<times> (string + response)" where
  "verifyCashfreePayment_try e fetch mid w =
     (if mid = [] then
        (w, Inr ((reply 400 False)\<lparr>res_message := Some ''Missing transaction ID''\<rparr>))
      else case pendingPayments w mid of
        None \<Rightarrow> (w, Inr ((reply 404 False)\<lparr>res_message := Some ''Transaction not found''\<rparr>))
      | Some p \<Rightarrow>
         (let w1 = w\<lparr>effects := effects w @ [CashfreeFetchOrder mid]\<rparr> in
          case fetch of
            Inl err \<Rightarrow> (w1, Inl err)
          | Inr None \<Rightarrow> (w1, Inl ''Cannot read properties of undefined (reading order_status)'')
          | Inr (Some d) \<Rightarrow>
             (let orderStatus = cf_order_status d;
                  paymentInfo = p\<lparr>status := orderStatus, verifiedAt := Some (now e),
                     paymentDetails := Some (CashfreeOrder (Some d))\<rparr>;
                  w2 = w1\<lparr>pendingPayments := (pendingPayments w1)(mid \<mapsto> paymentInfo)\<rparr>
              in if orderStatus = Some ''PAID'' then
                   (w2\<lparr>effects := dispatch e ''cashfree'' paymentInfo (effects w2)\<rparr>,
                    Inr ((reply 200 True)\<lparr>res_status := Some ''SUCCESS'',
                       res_message := Some ''Payment successful'',
                       res_data := Some (CashfreeOrder (Some d))\<rparr>))
                 else if orderStatus = Some ''ACTIVE'' then
                   (w2, Inr ((reply 200 False)\<lparr>res_status := Some ''PENDING'',
                       res_message := Some ''Payment is still processing'',
                       res_data := Some (CashfreeOrder (Some d))\<rparr>))
                 else
                   (w2, Inr ((reply 200 False)\<lparr>res_status := Some ''FAILED'',
                       res_message := Some (''Payment failed or was cancelled. Status: ''
                          @ js_str orderStatus),
                       res_data := Some (CashfreeOrder (Some d))\<rparr>)))))"

text \<open>The handler: the \<^verbatim>\<open>catch\<close> arm logs and answers 500 with status \<^verbatim>\<open>FAILED\<close>.\<close>

definition verifyCashfreePayment ::
  "io \<Rightarrow> (string + cashfree_order option) \<Rightarrow> string \<Rightarrow> world \<Rightarrow> world \<times> response" where
  "verifyCashfreePayment e fetch mid w =
     (case verifyCashfreePayment_try e fetch mid w of
        (w', Inr r) \<Rightarrow> (w', r)
      | (w', Inl err) \<Rightarrow>
          (w'\<lparr>effects := effects w' @ [ConsoleError ''Cashfree Verification Error:'']\<rparr>,
           (reply 500 False)\<lparr>res_status := Some ''FAILED'',
              res_message := Some (''Verification failed due to a server error: '' @ err)\<rparr>))"

text \<open>\<^verbatim>\<open>cashfreeWebhook\<close>. The body is \<open>None\<close> when \<^verbatim>\<open>req.body\<close> is undefined, in which
  case reading \<^verbatim>\<open>eventData.data\<close> throws and the \<^verbatim>\<open>catch\<close> arm answers 500.\<close>

definition cashfreeWebhook :: "io \<Rightarrow> cashfree_event option \<Rightarrow> world \<Rightarrow> world \<times> response" where
  "cashfreeWebhook e body w =
     (case body of
        None \<Rightarrow>
          (w\<lparr>effects := effects w @ [ConsoleError ''Cashfree Webhook Error:'']\<rparr>,
           (reply 500 False)\<lparr>res_message := Some ''Webhook failed''\<rparr>)
      | Some eventData \<Rightarrow>
         (let orderId = ev_order_id eventData;
              orderStatus = ev_order_status eventData;
              ok = (reply 200 True)\<lparr>res_message := Some ''Webhook processed''\<rparr>
          in case orderId of
               None \<Rightarrow> (w, ok)
             | Some oid \<Rightarrow>
                if oid = [] then (w, ok)
                else case pendingPayments w oid of
                  None \<Rightarrow> (w, ok)
                | Some p \<Rightarrow>
                   (let paymentInfo = p\<lparr>
                          status := (if orderStatus = Some ''PAID'' then Some ''COMPLETED''
                                     else orderStatus),
                          updatedAt := Some (now e),
                          webhookData := Some (CashfreeEvent eventData)\<rparr>;
                        w1 = w\<lparr>pendingPayments := (pendingPayments w)(oid \<mapsto> paymentInfo)\<rparr>
                    in if orderStatus = Some ''PAID'' then
                         (w1\<lparr>effects := dispatch e ''cashfree'' paymentInfo (effects w1)\<rparr>, ok)
                       else (w1, ok))))"

section \<open>PhonePe: initiation, callback and verification\<close>

text \<open>The body of an initiation request (\<^verbatim>\<open>req.body\<close>).\<close>

record init_request =
  req_amount :: amount_in
  req_ecommPlan :: "string option"
  req_hostingPlan :: "string option"
  req_customerName :: "string option"
  req_customerEmail :: "string option"
  req_customerPhone :: "string option"
  req_nameEncodes :: bool

text \<open>\<open>req_nameEncodes\<close> says whether \<^verbatim>\<open>encodeURIComponent(customerName)\<close> returns: for a
  name with a lone surrogate it throws a \<^verbatim>\<open>URIError\<close> instead. Strings here are byte
  lists, so the request carries the fact.\<close>

text \<open>\<^verbatim>\<open>!amount\<close>, \<^verbatim>\<open>isNaN(amount)\<close>, \<^verbatim>\<open>amount <= 0\<close> and \<^verbatim>\<open>parseFloat(amount)\<close>.\<close>

definition amount_falsy :: "amount_in \<Rightarrow> bool" where
  "amount_falsy a = (\<not> am_truthy a)"

definition isNaN :: "amount_in \<Rightarrow> bool" where
  "isNaN a = (am_number a = NaN)"

definition amount_le_zero :: "amount_in \<Rightarrow> bool" where
  "amount_le_zero a = (case am_number a of Num x \<Rightarrow> x \<le> 0 | NegInfinity \<Rightarrow> True
     | _ \<Rightarrow> False)"

definition parseFloat :: "amount_in \<Rightarrow> jsamount" where
  "parseFloat a = am_parsed a"

text \<open>The test \<^verbatim>\<open>/^\d{10}$/\<close>: exactly ten ASCII digits.\<close>

definition ten_digits :: "string \<Rightarrow> bool" where
  "ten_digits s = (length s = 10 \<and> list_all (\<lambda>c. c \<in> set ''0123456789'') s)"

text \<open>The object literal \<^verbatim>\<open>paymentInfo\<close> that the initiation handlers store: status
  \<^verbatim>\<open>PENDING\<close>, and every property that is written later still undefined.\<close>

definition new_payment :: "string \<Rightarrow> init_request \<Rightarrow> string \<Rightarrow> payment" where
  "new_payment mid req t = \<lparr>
     merchantTransactionId = mid,
     amount = parseFloat (req_amount req),
     customerName = req_customerName req,
     customerEmail = req_customerEmail req,
     customerPhone = req_customerPhone req,
     ecommPlan = req_ecommPlan req,
     hostingPlan = req_hostingPlan req,
     status = Some ''PENDING'',
     createdAt = Some t,
     updatedAt = None, verifiedAt = None, phonepeOrderId = None, redirectUrl = None,
     expireAt = None, cashfreeOrderId = None, paymentSessionId = None,
     paymentDetails = None, webhookData = None, paypalCaptureData = None,
     paymentMethod = None\<rparr>"

text \<open>\<^verbatim>\<open>initiatePhonePePayment\<close>. \<open>newId\<close> is the identifier the handler generates from
  the clock and \<^verbatim>\<open>Math.random\<close>; \<open>pay\<close> is what the SDK does from building the request
  to \<^verbatim>\<open>client.pay\<close> (\<open>Inl msg\<close>: it throws an error with that message); creating the
  client from the configuration is taken to succeed. The payment is stored first; the
  redirect URL is built next, where \<^verbatim>\<open>encodeURIComponent\<close> may throw; then the SDK is
  called.\<close>

definition initiatePhonePePayment ::
  "io \<Rightarrow> (string + phonepe_pay option) \<Rightarrow> string \<Rightarrow> init_request \<Rightarrow> world \<Rightarrow> world \<times> response" where
  "initiatePhonePePayment e pay newId req w =
     (if amount_falsy (req_amount req) \<or> falsy (req_customerPhone req)
         \<or> falsy (req_customerEmail req) \<or> falsy (req_customerName req) then
        (w, (reply 400 False)\<lparr>res_message := Some
           ''Missing required fields: amount, customerPhone, customerEmail, customerName''\<rparr>)
      else if \<not> ten_digits (js_str (req_customerPhone req)) then
        (w, (reply 400 False)\<lparr>res_message := Some ''Phone number must be exactly 10 digits''\<rparr>)
      else if isNaN (req_amount req) \<or> amount_le_zero (req_amount req) then
        (w, (reply 400 False)\<lparr>res_message := Some ''Invalid amount''\<rparr>)
      else
        (let paymentInfo = new_payment newId req (now e);
             w0 = w\<lparr>pendingPayments := (pendingPayments w)(newId \<mapsto> paymentInfo)\<rparr>;
             w1 = w0\<lparr>effects := effects w0 @ [PhonePePayCall newId]\<rparr>
         in if \<not> req_nameEncodes req then
              (w0\<lparr>effects := effects w0 @ [ConsoleError ''PhonePe Payment Error:'']\<rparr>,
               (reply 500 False)\<lparr>res_message := Some ''URI malformed''\<rparr>)
            else case pay of
              Inl err \<Rightarrow>
                (w1\<lparr>effects := effects w1 @ [ConsoleError ''PhonePe Payment Error:'']\<rparr>,
                 (reply 500 False)\<lparr>res_message := Some
                    (if err = [] then ''Payment initiation failed'' else err)\<rparr>)
            | Inr resp \<Rightarrow>
               (case resp of
                  None \<Rightarrow>
                    (w1\<lparr>effects := effects w1
                          @ [ConsoleError ''PhonePe SDK Error: Missing redirect URL'']\<rparr>,
                     (reply 400 False)\<lparr>res_message := Some
                        ''Payment initiation failed - missing redirect URL'',
                        res_data := Some (PhonePePay resp)\<rparr>)
                | Some r \<Rightarrow>
                    if falsy (pay_redirectUrl r) then
                      (w1\<lparr>effects := effects w1
                            @ [ConsoleError ''PhonePe SDK Error: Missing redirect URL'']\<rparr>,
                       (reply 400 False)\<lparr>res_message := Some
                          ''Payment initiation failed - missing redirect URL'',
                          res_data := Some (PhonePePay resp)\<rparr>)
                    else
                      (w1\<lparr>pendingPayments := (pendingPayments w1)(newId \<mapsto>
                            paymentInfo\<lparr>phonepeOrderId := pay_orderId r,
                              redirectUrl := pay_redirectUrl r,
                              status := Some ''INITIATED'',
                              expireAt := pay_expireAt r\<rparr>)\<rparr>,
                       (reply 200 True)\<lparr>res_redirectUrl := pay_redirectUrl r,
                          res_merchantTransactionId := Some newId,
                          res_orderId := pay_orderId r,
                          res_message := Some ''Payment initiated successfully''\<rparr>))))"

text \<open>The query string of the PhonePe callback.\<close>

record callback_query =
  cb_merchantTransactionId :: "string option"
  cb_status :: "string option"

text \<open>\<^verbatim>\<open>phonePeCallback\<close>: a known transaction gets the status of the query string, or
  \<^verbatim>\<open>COMPLETED\<close> when the query has none; the answer is always 200.\<close>

definition phonePeCallback :: "io \<Rightarrow> callback_query \<Rightarrow> world \<Rightarrow> world \<times> response" where
  "phonePeCallback e q w =
     (let ok = (reply 200 True)\<lparr>res_message := Some ''Callback processed''\<rparr> in
      case cb_merchantTransactionId q of
        None \<Rightarrow> (w, ok)
      | Some mid \<Rightarrow>
         if mid = [] then (w, ok)
         else case pendingPayments w mid of
           None \<Rightarrow> (w, ok)
         | Some p \<Rightarrow>
            (w\<lparr>pendingPayments := (pendingPayments w)(mid \<mapsto>
                  p\<lparr>status := Some (or_else (cb_status q) ''COMPLETED''),
                    updatedAt := Some (now e)\<rparr>)\<rparr>, ok))"

text \<open>\<^verbatim>\<open>statusResponse?.state\<close>.\<close>

definition state_of :: "phonepe_status option \<Rightarrow> string option" where
  "state_of statusResponse = (case statusResponse of None \<Rightarrow> None | Some s \<Rightarrow> ps_state s)"

text \<open>The error text of the failure branch of the verification.\<close>

definition errorInfo :: "phonepe_status \<Rightarrow> string" where
  "errorInfo s =
     (case ps_paymentDetails s of
        Some (d # ds) \<Rightarrow> ''Error: '' @ or_else (pd_errorCode d) ''Unknown'' @ '' - ''
                           @ or_else (pd_detailedErrorCode d) []
      | _ \<Rightarrow> ''No detailed error information available'')"

text \<open>The body of the \<^verbatim>\<open>try\<close> of \<^verbatim>\<open>verifyPhonePePayment\<close>. \<open>getOrderStatus\<close> is what
  \<^verbatim>\<open>client.getOrderStatus\<close> does; its answer may be \<^verbatim>\<open>null\<close> (\<open>None\<close>), which the first
  three reads guard against and the failure branch does not: there
  \<^verbatim>\<open>statusResponse.paymentDetails\<close> throws.\<close>

definition verifyPhonePePayment_try ::
  "io \<Rightarrow> (string + phonepe_status option) \<Rightarrow> string \<Rightarrow> world \<Rightarrow> world \<times> (string + response)" where
  "verifyPhonePePayment_try e getOrderStatus mid w =
     (if mid = [] then
        (w, Inr ((reply 400 False)\<lparr>res_message := Some ''Missing transaction ID''\<rparr>))
      else case pendingPayments w mid of
        None \<Rightarrow> (w, Inr ((reply 404 False)\<lparr>res_message := Some ''Transaction not found''\<rparr>))
      | Some p \<Rightarrow>
         (let w1 = w\<lparr>effects := effects w @ [PhonePeGetOrderStatus mid]\<rparr> in
          case getOrderStatus of
            Inl err \<Rightarrow> (w1, Inl err)
          | Inr statusResponse \<Rightarrow>
             (let paymentInfo = p\<lparr>status := Some (or_else (state_of statusResponse) ''UNKNOWN''),
                     verifiedAt := Some (now e),
                     paymentDetails := Some (PhonePeStatus statusResponse)\<rparr>;
                  w2 = w1\<lparr>pendingPayments := (pendingPayments w1)(mid \<mapsto> paymentInfo)\<rparr>
              in if state_of statusResponse = Some ''COMPLETED'' then
                   (w2\<lparr>effects := dispatch e ''phonepe'' paymentInfo (effects w2)\<rparr>,
                    Inr ((reply 200 True)\<lparr>res_status := Some ''SUCCESS'',
                       res_message := Some ''Payment successful'',
                       res_data := Some (PhonePeStatus statusResponse)\<rparr>))
                 else if state_of statusResponse = Some ''PENDING'' then
                   (w2, Inr ((reply 200 False)\<lparr>res_status := Some ''PENDING'',
                       res_message := Some ''Payment is still processing'',
                       res_data := Some (PhonePeStatus statusResponse)\<rparr>))
                 else case statusResponse of
                   None \<Rightarrow>
                     (w2, Inl ''Cannot read properties of null (reading paymentDetails)'')
                 | Some s \<Rightarrow>
                     (w2, Inr ((reply 200 False)\<lparr>res_status := Some ''FAILED'',
                        res_message := Some (''Payment failed or was cancelled. '' @ errorInfo s),
                        res_data := Some (PhonePeStatus statusResponse)\<rparr>)))))"

definition verifyPhonePePayment ::
  "io \<Rightarrow> (string + phonepe_status option) \<Rightarrow> string \<Rightarrow> world \<Rightarrow> world \<times> response" where
  "verifyPhonePePayment e getOrderStatus mid w =
     (case verifyPhonePePayment_try e getOrderStatus mid w of
        (w', Inr r) \<Rightarrow> (w', r)
      | (w', Inl err) \<Rightarrow>
          (w'\<lparr>effects := effects w' @ [ConsoleError ''PhonePe Verification Error:'']\<rparr>,
           (reply 500 False)\<lparr>res_status := Some ''FAILED'',
              res_message := Some (''Verification failed due to a server error: '' @ err)\<rparr>))"

section \<open>Cashfree: initiation\<close>

text \<open>\<^verbatim>\<open>initiateCashfreePayment\<close>. Its only validation is that amount, email and name are
  truthy. The return URL is built before the payment is stored, so a throwing
  \<^verbatim>\<open>encodeURIComponent\<close> leaves nothing behind. \<open>create\<close> is what
  \<^verbatim>\<open>cashfree.PGCreateOrder\<close> does; creating the client from the configuration is taken
  to succeed.\<close>

definition initiateCashfreePayment ::
  "io \<Rightarrow> (string + cashfree_order option) \<Rightarrow> string \<Rightarrow> init_request \<Rightarrow> world \<Rightarrow> world \<times> response" where
  "initiateCashfreePayment e create newId req w =
     (if amount_falsy (req_amount req) \<or> falsy (req_customerEmail req)
         \<or> falsy (req_customerName req) then
        (w, (reply 400 False)\<lparr>res_message := Some ''Missing required fields''\<rparr>)
      else if \<not> req_nameEncodes req then
        (w\<lparr>effects := effects w @ [ConsoleError ''Cashfree Payment Error:'']\<rparr>,
         (reply 500 False)\<lparr>res_message := Some
            (''Payment initiation failed: '' @ ''URI malformed'')\<rparr>)
      else
        (let paymentInfo = new_payment newId req (now e);
             w1 = w\<lparr>pendingPayments := (pendingPayments w)(newId \<mapsto> paymentInfo),
                    effects := effects w @ [CashfreeCreateOrder newId]\<rparr>
         in case create of
              Inl err \<Rightarrow>
                (w1\<lparr>effects := effects w1 @ [ConsoleError ''Cashfree Payment Error:'']\<rparr>,
                 (reply 500 False)\<lparr>res_message := Some (''Payment initiation failed: '' @ err)\<rparr>)
            | Inr d \<Rightarrow>
               (case d of
                  None \<Rightarrow>
                    (w1\<lparr>effects := effects w1
                          @ [ConsoleError ''Cashfree Error: Missing payment session ID'']\<rparr>,
                     (reply 400 False)\<lparr>res_message := Some ''Payment initiation failed'',
                        res_data := Some (CashfreeOrder d)\<rparr>)
                | Some r \<Rightarrow>
                    if falsy (cf_payment_session_id r) then
                      (w1\<lparr>effects := effects w1
                            @ [ConsoleError ''Cashfree Error: Missing payment session ID'']\<rparr>,
                       (reply 400 False)\<lparr>res_message := Some ''Payment initiation failed'',
                          res_data := Some (CashfreeOrder d)\<rparr>)
                    else
                      (w1\<lparr>pendingPayments := (pendingPayments w1)(newId \<mapsto>
                            paymentInfo\<lparr>cashfreeOrderId := cf_order_id r,
                              paymentSessionId := cf_payment_session_id r,
                              status := Some ''INITIATED''\<rparr>)\<rparr>,
                       (reply 200 True)\<lparr>res_orderId := cf_order_id r,
                          res_paymentSessionId := cf_payment_session_id r,
                          res_merchantTransactionId := Some newId\<rparr>))))"

section \<open>PayPal: initiation and capture\<close>



text \<open>String operations of the capture handler: \<^verbatim>\<open>includes\<close>, the second piece of
  \<^verbatim>\<open>split('-')\<close>, and \<^verbatim>\<open>trim\<close> (over the ASCII white space).\<close>

fun js_includes :: "string \<Rightarrow> string \<Rightarrow> bool" where
  "js_includes [] t = (t = [])"
| "js_includes (c # cs) t = (take (length t) (c # cs) = t \<or> js_includes cs t)"

definition second_piece :: "string \<Rightarrow> string option" where
  "second_piece d =
     (case dropWhile (\<lambda>c. c \<noteq> CHR ''-'') d of
        [] \<Rightarrow> None
      | x # r \<Rightarrow> Some (takeWhile (\<lambda>c. c \<noteq> CHR ''-'') r))"

definition js_trim :: "string \<Rightarrow> string" where
  "js_trim s =
     (let sp = (\<lambda>c. c \<in> set [CHR '' '', CHR 0x09, CHR 0x0A, CHR 0x0B, CHR 0x0C, CHR 0x0D])
      in rev (dropWhile sp (rev (dropWhile sp s))))"

text \<open>The object the capture handler makes up from the PayPal answer when the order id
  is not in the store. \<open>Inl\<close>: building it throws (\<^verbatim>\<open>purchase_units\<close> is undefined, or
  \<^verbatim>\<open>payments\<close> has no \<^verbatim>\<open>captures\<close>).\<close>

definition payment_from_capture :: "string \<Rightarrow> paypal_capture \<Rightarrow> string + payment" where
  "payment_from_capture orderID captureData =
     (case cap_purchase_units captureData of
        None \<Rightarrow> Inl ''Cannot read properties of undefined (reading 0)''
      | Some units \<Rightarrow>
         (let u0 = (case units of [] \<Rightarrow> None | u # us \<Rightarrow> Some u);
              payments = (case u0 of None \<Rightarrow> None | Some u \<Rightarrow> pu_payments u);
              description = (case u0 of None \<Rightarrow> None | Some u \<Rightarrow> pu_description u);
              plan = (case description of
                        None \<Rightarrow> Some ''Standard''
                      | Some d \<Rightarrow> if js_includes d ''CraftMyStore''
                                  then map_option js_trim (second_piece d)
                                  else Some ''Standard'');
              made = (\<lambda>v. \<lparr>
                 merchantTransactionId = orderID,
                 amount = Text (or_else v ''0''),
                 customerName = Some (js_str (cap_given_name captureData) @ '' ''
                                        @ js_str (cap_surname captureData)),
                 customerEmail = Some (or_else (cap_email_address captureData)
                                        ''No email provided''),
                 customerPhone = Some ''Not provided via PayPal'',
                 ecommPlan = plan,
                 hostingPlan = Some ''Standard'',
                 status = None, createdAt = None,
                 updatedAt = None, verifiedAt = None, phonepeOrderId = None,
                 redirectUrl = None, expireAt = None, cashfreeOrderId = None,
                 paymentSessionId = None, paymentDetails = None, webhookData = None,
                 paypalCaptureData = None, paymentMethod = None\<rparr>)
          in case payments of
               None \<Rightarrow> Inr (made None)
             | Some ps \<Rightarrow>
                (case pp_captures ps of
                   None \<Rightarrow> Inl ''Cannot read properties of undefined (reading 0)''
                 | Some [] \<Rightarrow> Inr (made None)
                 | Some (v # vs) \<Rightarrow> Inr (made v))))"

text \<open>\<^verbatim>\<open>capturePayPalPayment\<close>. The answer of the capture call is never inspected: once
  the call has returned, the payment is marked \<^verbatim>\<open>COMPLETED\<close>, stored under the order
  id (made up from the answer when the id is unknown), and the side effects run.\<close>

definition capturePayPalPayment ::
  "io \<Rightarrow> (string + unit) \<Rightarrow> (string + paypal_capture) \<Rightarrow> string option \<Rightarrow> world \<Rightarrow> world \<times> response" where
  "capturePayPalPayment e token capture orderID w =
     (let failed = (\<lambda>w' err.
            (w'\<lparr>effects := effects w' @ [ConsoleError ''PayPal Capture Error:'']\<rparr>,
             (reply 500 False)\<lparr>res_message := Some (''Capture failed: '' @ err)\<rparr>))
      in
      if falsy orderID then
        (w, (reply 400 False)\<lparr>res_message := Some ''Missing order ID''\<rparr>)
      else
        (let oid = js_str orderID;
             w1 = w\<lparr>effects := effects w @ [PayPalToken]\<rparr> in
         case token of
           Inl err \<Rightarrow> failed w1 err
         | Inr u \<Rightarrow>
            (let w2 = w1\<lparr>effects := effects w1 @ [PayPalCaptureCall oid]\<rparr> in
             case capture of
               Inl err \<Rightarrow> failed w2 err
             | Inr captureData \<Rightarrow>
                (case (case pendingPayments w2 oid of
                         Some p \<Rightarrow> Inr p
                       | None \<Rightarrow> payment_from_capture oid captureData) of
                   Inl err \<Rightarrow> failed w2 err
                 | Inr p \<Rightarrow>
                    (let paymentInfo = p\<lparr>status := Some ''COMPLETED'',
                            paypalCaptureData := Some (PayPalCapture captureData),
                            updatedAt := Some (now e)\<rparr>;
                         w3 = w2\<lparr>pendingPayments := (pendingPayments w2)(oid \<mapsto> paymentInfo)\<rparr>
                     in (w3\<lparr>effects := dispatch e ''paypal'' paymentInfo (effects w3)\<rparr>,
                         (reply 200 True)\<lparr>res_data := Some (PayPalCapture captureData)\<rparr>))))))"

section \<open>Status signals and what is observed of them\<close>

text \<open>The number of admin notifications and of archive writes issued for a transaction
  id, read off the trace.\<close>

fun is_notify :: "string \<Rightarrow> effect \<Rightarrow> bool" where
  "is_notify i (SendMail subject p) = (merchantTransactionId p = i)"
| "is_notify i x = False"

fun is_archive :: "string \<Rightarrow> effect \<Rightarrow> bool" where
  "is_archive i (FirestoreSet k d) = (k = i)"
| "is_archive i x = False"

definition notified :: "string \<Rightarrow> world \<Rightarrow> nat" where
  "notified i w = length (filter (is_notify i) (effects w))"

definition archived :: "string \<Rightarrow> world \<Rightarrow> nat" where
  "archived i w = length (filter (is_archive i) (effects w))"

text \<open>Every stored payment carries the key it is stored under. All handlers establish
  and keep this.\<close>

definition keyed :: "world \<Rightarrow> bool" where
  "keyed w = (\<forall>k p. pendingPayments w k = Some p \<longrightarrow> merchantTransactionId p = k)"

text \<open>The stored status of a transaction: \<open>None\<close> when the id is not in the store.\<close>

definition stored_status :: "world \<Rightarrow> string \<Rightarrow> string option option" where
  "stored_status w i = map_option status (pendingPayments w i)"

text \<open>A status signal is one request to a verification, callback, webhook or capture
  handler, together with what the outside world answers during it.\<close>

datatype signal =
    PhonePeVerify io "string + phonepe_status option" string
  | PhonePeCallback io callback_query
  | CashfreeVerify io "string + cashfree_order option" string
  | CashfreeWebhook io "cashfree_event option"
  | PayPalCaptured io "string + unit" "string + paypal_capture" "string option"

fun apply_signal :: "signal \<Rightarrow> world \<Rightarrow> world \<times> response" where
  "apply_signal (PhonePeVerify e r mid) w = verifyPhonePePayment e r mid w"
| "apply_signal (PhonePeCallback e q) w = phonePeCallback e q w"
| "apply_signal (CashfreeVerify e r mid) w = verifyCashfreePayment e r mid w"
| "apply_signal (CashfreeWebhook e b) w = cashfreeWebhook e b w"
| "apply_signal (PayPalCaptured e t c oid) w = capturePayPalPayment e t c oid w"

text \<open>Signals handled one after the other, each to completion.\<close>

fun apply_signals :: "signal list \<Rightarrow> world \<Rightarrow> world" where
  "apply_signals [] w = w"
| "apply_signals (s # ss) w = apply_signals ss (fst (apply_signal s w))"

text \<open>The signals that report success for transaction \<open>i\<close>: a verification whose provider
  answers \<^verbatim>\<open>COMPLETED\<close> (PhonePe) or \<^verbatim>\<open>PAID\<close> (Cashfree), a Cashfree webhook with
  \<^verbatim>\<open>PAID\<close>, a PayPal capture whose two calls return. The PhonePe callback is never one.\<close>

fun success_signal :: "string \<Rightarrow> signal \<Rightarrow> bool" where
  "success_signal i (PhonePeVerify e r mid) =
     (mid = i \<and> (case r of Inl err \<Rightarrow> False | Inr sr \<Rightarrow> state_of sr = Some ''COMPLETED''))"
| "success_signal i (PhonePeCallback e q) = False"
| "success_signal i (CashfreeVerify e r mid) =
     (mid = i \<and> (case r of Inr (Some d) \<Rightarrow> cf_order_status d = Some ''PAID'' | _ \<Rightarrow> False))"
| "success_signal i (CashfreeWebhook e b) =
     (case b of None \<Rightarrow> False
      | Some ev \<Rightarrow> ev_order_id ev = Some i \<and> ev_order_status ev = Some ''PAID'')"
| "success_signal i (PayPalCaptured e t c oid) =
     (oid = Some i \<and> (case t of Inl err \<Rightarrow> False | Inr u \<Rightarrow>
        (case c of Inl err \<Rightarrow> False | Inr d \<Rightarrow> True)))"

text \<open>The raw status a signal carries for transaction \<open>i\<close>, if it carries one: \<open>None\<close>
  when the signal is for another id or the provider call behind it fails.\<close>

fun carried_status :: "string \<Rightarrow> signal \<Rightarrow> string option option" where
  "carried_status i (PhonePeVerify e r mid) =
     (if mid = i then (case r of Inl err \<Rightarrow> None
        | Inr sr \<Rightarrow> Some (Some (or_else (state_of sr) ''UNKNOWN''))) else None)"
| "carried_status i (PhonePeCallback e q) =
     (if cb_merchantTransactionId q = Some i
      then Some (Some (or_else (cb_status q) ''COMPLETED'')) else None)"
| "carried_status i (CashfreeVerify e r mid) =
     (if mid = i then (case r of Inr (Some d) \<Rightarrow> Some (cf_order_status d) | _ \<Rightarrow> None)
      else None)"
| "carried_status i (CashfreeWebhook e b) =
     (case b of None \<Rightarrow> None
      | Some ev \<Rightarrow> if ev_order_id ev = Some i
          then Some (if ev_order_status ev = Some ''PAID'' then Some ''COMPLETED''
                     else ev_order_status ev)
          else None)"
| "carried_status i (PayPalCaptured e t c oid) =
     (if oid = Some i then (case t of Inl err \<Rightarrow> None | Inr u \<Rightarrow>
        (case c of Inl err \<Rightarrow> None | Inr d \<Rightarrow> Some (Some ''COMPLETED''))) else None)"

section \<open>The webhook handler between its suspension points\<close>

text \<open>
  Node runs one handler at a time, but an \<^verbatim>\<open>async\<close> handler gives up control wherever it
  awaits outside I/O, and another request may run in between. \<^verbatim>\<open>cashfreeWebhook\<close>
  has two such points: the \<^verbatim>\<open>sendMail\<close> call inside \<^verbatim>\<open>sendAdminNotificationEmail\<close> and
  the Firestore \<^verbatim>\<open>set\<close> inside \<^verbatim>\<open>storePaymentData\<close>. Between them it runs atomically.
  The handler holds \<^verbatim>\<open>paymentInfo\<close>, a reference to the stored object; the model holds
  the key and reads the store again (the key's object is never replaced by these
  handlers; the copy in the control state stands in should the key be gone).
\<close>

datatype webhook_pc =
    Start
  | AwaitMail string payment
  | AwaitStore
  | Finished response

definition webhook_step ::
  "io \<Rightarrow> cashfree_event option \<Rightarrow> webhook_pc \<Rightarrow> world \<Rightarrow> world \<times> webhook_pc" where
  "webhook_step e body pc w =
     (let ok = (reply 200 True)\<lparr>res_message := Some ''Webhook processed''\<rparr> in
      case pc of
        Start \<Rightarrow>
          (case body of
             None \<Rightarrow>
               (w\<lparr>effects := effects w @ [ConsoleError ''Cashfree Webhook Error:'']\<rparr>,
                Finished ((reply 500 False)\<lparr>res_message := Some ''Webhook failed''\<rparr>))
           | Some eventData \<Rightarrow>
              (let orderId = ev_order_id eventData;
                   orderStatus = ev_order_status eventData
               in case orderId of
                    None \<Rightarrow> (w, Finished ok)
                  | Some oid \<Rightarrow>
                     if oid = [] then (w, Finished ok)
                     else case pendingPayments w oid of
                       None \<Rightarrow> (w, Finished ok)
                     | Some p \<Rightarrow>
                        (let paymentInfo = p\<lparr>
                               status := (if orderStatus = Some ''PAID'' then Some ''COMPLETED''
                                          else orderStatus),
                               updatedAt := Some (now e),
                               webhookData := Some (CashfreeEvent eventData)\<rparr>;
                             w1 = w\<lparr>pendingPayments := (pendingPayments w)(oid \<mapsto> paymentInfo)\<rparr>
                         in if orderStatus = Some ''PAID'' then
                              (w1\<lparr>effects := effects w1 @
                                   [SendMail (''New Client Alert: ''
                                      @ js_str (customerName paymentInfo)
                                      @ '' has made a payment!'') paymentInfo]\<rparr>,
                               AwaitMail oid paymentInfo)
                            else (w1, Finished ok))))
      | AwaitMail oid p0 \<Rightarrow>
          (let paymentInfo = (case pendingPayments w oid of None \<Rightarrow> p0 | Some p \<Rightarrow> p);
               tr = (if mailOk e then effects w
                     else effects w @ [ConsoleError ''Error sending admin notification email:'']);
               firestorePaymentData = paymentInfo\<lparr>paymentMethod := Some ''cashfree'',
                  status := Some ''COMPLETED'', updatedAt := Some (now_archive e)\<rparr>;
               tr1 = tr @ [FirestoreSet (merchantTransactionId firestorePaymentData)
                             (paymentDoc e firestorePaymentData)]
           in (w\<lparr>effects := tr1\<rparr>, AwaitStore))
      | AwaitStore \<Rightarrow>
          (if firestoreOk e then (w, Finished ok)
           else (w\<lparr>effects := effects w
                   @ [ConsoleError ''Error storing payment data in Firestore:'']\<rparr>, Finished ok))
      | Finished r \<Rightarrow> (w, Finished r))"

text \<open>Two webhook deliveries in flight. A schedule says which of the two runs its next
  atomic piece: \<open>False\<close> the first, \<open>True\<close> the second.\<close>

record two_webhooks =
  shared :: world
  pc1 :: webhook_pc
  pc2 :: webhook_pc

definition sched_step ::
  "io \<times> cashfree_event option \<Rightarrow> io \<times> cashfree_event option \<Rightarrow> bool \<Rightarrow> two_webhooks \<Rightarrow> two_webhooks" where
  "sched_step r1 r2 second c =
     (if second then
        (case webhook_step (fst r2) (snd r2) (pc2 c) (shared c) of
           (w', pc') \<Rightarrow> c\<lparr>shared := w', pc2 := pc'\<rparr>)
      else
        (case webhook_step (fst r1) (snd r1) (pc1 c) (shared c) of
           (w', pc') \<Rightarrow> c\<lparr>shared := w', pc1 := pc'\<rparr>))"

fun run_schedule ::
  "io \<times> cashfree_event option \<Rightarrow> io \<times> cashfree_event option \<Rightarrow> bool list \<Rightarrow> two_webhooks \<Rightarrow> two_webhooks" where
  "run_schedule r1 r2 [] c = c"
| "run_schedule r1 r2 (b # bs) c = run_schedule r1 r2 bs (sched_step r1 r2 b c)"

fun is_finished :: "webhook_pc \<Rightarrow> bool" where
  "is_finished (Finished r) = True"
| "is_finished pc = False"

definition both_finished :: "two_webhooks \<Rightarrow> bool" where
  "both_finished c = (is_finished (pc1 c) \<and> is_finished (pc2 c))"

text \<open>How far a delivery that dispatches has come: the notifications and archive writes
  it has issued by the time it is at a control point, and the order it is working on.\<close>

fun mails_issued :: "webhook_pc \<Rightarrow> nat" where
  "mails_issued Start = 0"
| "mails_issued pc = 1"

fun writes_issued :: "webhook_pc \<Rightarrow> nat" where
  "writes_issued Start = 0"
| "writes_issued (AwaitMail oid p) = 0"
| "writes_issued pc = 1"

fun works_on :: "string \<Rightarrow> webhook_pc \<Rightarrow> bool" where
  "works_on i (AwaitMail oid p) = (oid = i)"
| "works_on i pc = True"

text \<open>The invariant of two deliveries that both report \<^verbatim>\<open>PAID\<close> for the stored order \<open>i\<close>,
  started when \<open>n\<close> notifications and \<open>a\<close> archive writes had been issued for it.\<close>

definition progress_inv :: "string \<Rightarrow> nat \<Rightarrow> nat \<Rightarrow> two_webhooks \<Rightarrow> bool" where
  "progress_inv i n a c =
     (keyed (shared c) \<and> i \<in> dom (pendingPayments (shared c))
      \<and> works_on i (pc1 c) \<and> works_on i (pc2 c)
      \<and> notified i (shared c) = n + mails_issued (pc1 c) + mails_issued (pc2 c)
      \<and> archived i (shared c) = a + writes_issued (pc1 c) + writes_issued (pc2 c))"

section \<open>Example data\<close>

text \<open>A request, an outside world in which everything works and one in which neither the
  mail transport nor Firestore does, and the stores that the initiation handlers build
  from the empty store for the transaction ids \<^verbatim>\<open>T1\<close> (Cashfree) and \<^verbatim>\<open>P1\<close> (PhonePe).\<close>

definition io_ok :: io where
  "io_ok = \<lparr>now = ''10:00'', now_archive = ''10:01'', now_doc = ''10:02'',
     mailOk = True, firestoreOk = True\<rparr>"

definition io_down :: io where
  "io_down = io_ok\<lparr>mailOk := False, firestoreOk := False\<rparr>"

definition request_500 :: init_request where
  "request_500 = \<lparr>req_amount = json_number 500, req_ecommPlan = Some ''Pro'',
     req_hostingPlan = Some ''Basic'', req_customerName = Some ''Asha'',
     req_customerEmail = Some ''asha@example.com'',
     req_customerPhone = Some ''9876543210'', req_nameEncodes = True\<rparr>"

definition empty_world :: world where
  "empty_world = \<lparr>pendingPayments = Map.empty, effects = []\<rparr>"

definition cashfree_world :: world where
  "cashfree_world = fst (initiateCashfreePayment io_ok
     (Inr (Some \<lparr>cf_order_id = Some ''T1'', cf_order_status = Some ''ACTIVE'',
        cf_payment_session_id = Some ''session_1''\<rparr>)) ''T1'' request_500 empty_world)"

definition phonepe_world :: world where
  "phonepe_world = fst (initiatePhonePePayment io_ok
     (Inr (Some \<lparr>pay_redirectUrl = Some ''https://pay.example/P1'',
        pay_orderId = Some ''OMO1'', pay_expireAt = Some ''1700000000''\<rparr>))
     ''P1'' request_500 empty_world)"

definition paid_order :: cashfree_order where
  "paid_order = \<lparr>cf_order_id = Some ''T1'', cf_order_status = Some ''PAID'',
     cf_payment_session_id = Some ''session_1''\<rparr>"

definition paid_event :: cashfree_event where
  "paid_event = \<lparr>ev_order_id = Some ''T1'', ev_order_status = Some ''PAID''\<rparr>"


definition declined_capture :: paypal_capture where
  "declined_capture = \<lparr>cap_status = Some ''DECLINED'', cap_given_name = Some ''Asha'',
     cap_surname = Some ''Rao'', cap_email_address = Some ''asha@example.com'',
     cap_purchase_units = Some [\<lparr>pu_description = Some ''CraftMyStore - Pro + Basic'',
        pu_payments = Some \<lparr>pp_captures = Some [Some ''500.00'']\<rparr>\<rparr>]\<rparr>"

definition failed_status :: phonepe_status where
  "failed_status = \<lparr>ps_state = Some ''FAILED'',
     ps_paymentDetails = Some [\<lparr>pd_state = Some ''FAILED'', pd_errorCode = Some ''TXN_DECLINED'',
        pd_detailedErrorCode = None\<rparr>]\<rparr>"

section \<open>Properties\<close>

subsection \<open>The trace of the success block\<close>

lemma dispatch_trace:
  "dispatch e m p tr =
     tr @ [SendMail (''New Client Alert: '' @ js_str (customerName p) @ '' has made a payment!'') p]
        @ (if mailOk e then [] else [ConsoleError ''Error sending admin notification email:''])
        @ [FirestoreSet (merchantTransactionId p)
             (paymentDoc e (p\<lparr>paymentMethod := Some m, status := Some ''COMPLETED'',
                updatedAt := Some (now_archive e)\<rparr>))]
        @ (if firestoreOk e then [] else [ConsoleError ''Error storing payment data in Firestore:''])"
  by (simp add: dispatch_def sendAdminNotificationEmail_def storePaymentData_def Let_def)

subsection \<open>What a verification does when the provider reports success\<close>



lemma cashfree_world_T1:
  "pendingPayments cashfree_world ''T1'' =
     Some ((new_payment ''T1'' request_500 ''10:00'')\<lparr>cashfreeOrderId := Some ''T1'',
        paymentSessionId := Some ''session_1'', status := Some ''INITIATED''\<rparr>)"
  by (simp add: cashfree_world_def initiateCashfreePayment_def request_500_def json_number_def io_ok_def
      empty_world_def amount_falsy_def falsy_def Let_def)

subsection \<open>Failing side effects\<close>



subsection \<open>The world after each handler, branch by branch\<close>

lemma verifyCashfree_world:
  "fst (verifyCashfreePayment e r mid w) =
     (if mid = [] then w
      else case pendingPayments w mid of
        None \<Rightarrow> w
      | Some p \<Rightarrow>
         (case r of
            Inl err \<Rightarrow> w\<lparr>effects := effects w @ [CashfreeFetchOrder mid,
                         ConsoleError ''Cashfree Verification Error:'']\<rparr>
          | Inr None \<Rightarrow> w\<lparr>effects := effects w @ [CashfreeFetchOrder mid,
                         ConsoleError ''Cashfree Verification Error:'']\<rparr>
          | Inr (Some d) \<Rightarrow>
              w\<lparr>pendingPayments := (pendingPayments w)(mid \<mapsto> p\<lparr>status := cf_order_status d,
                    verifiedAt := Some (now e),
                    paymentDetails := Some (CashfreeOrder (Some d))\<rparr>),
                effects := (if cf_order_status d = Some ''PAID''
                   then dispatch e ''cashfree'' (p\<lparr>status := cf_order_status d,
                          verifiedAt := Some (now e),
                          paymentDetails := Some (CashfreeOrder (Some d))\<rparr>)
                          (effects w @ [CashfreeFetchOrder mid])
                   else effects w @ [CashfreeFetchOrder mid])\<rparr>))"
  by (simp add: verifyCashfreePayment_def verifyCashfreePayment_try_def Let_def
      split: option.split sum.split)

lemma verifyPhonePe_world:
  "fst (verifyPhonePePayment e r mid w) =
     (if mid = [] then w
      else case pendingPayments w mid of
        None \<Rightarrow> w
      | Some p \<Rightarrow>
         (case r of
            Inl err \<Rightarrow> w\<lparr>effects := effects w @ [PhonePeGetOrderStatus mid,
                         ConsoleError ''PhonePe Verification Error:'']\<rparr>
          | Inr sr \<Rightarrow>
              w\<lparr>pendingPayments := (pendingPayments w)(mid \<mapsto>
                    p\<lparr>status := Some (or_else (state_of sr) ''UNKNOWN''),
                    verifiedAt := Some (now e),
                    paymentDetails := Some (PhonePeStatus sr)\<rparr>),
                effects := (if state_of sr = Some ''COMPLETED''
                   then dispatch e ''phonepe''
                          (p\<lparr>status := Some (or_else (state_of sr) ''UNKNOWN''),
                          verifiedAt := Some (now e),
                          paymentDetails := Some (PhonePeStatus sr)\<rparr>)
                          (effects w @ [PhonePeGetOrderStatus mid])
                   else if sr = None
                   then effects w @ [PhonePeGetOrderStatus mid,
                          ConsoleError ''PhonePe Verification Error:'']
                   else effects w @ [PhonePeGetOrderStatus mid])\<rparr>))"
  by (simp add: verifyPhonePePayment_def verifyPhonePePayment_try_def Let_def state_of_def
      split: option.split sum.split)

lemma webhook_world:
  "fst (cashfreeWebhook e b w) =
     (case b of
        None \<Rightarrow> w\<lparr>effects := effects w @ [ConsoleError ''Cashfree Webhook Error:'']\<rparr>
      | Some ev \<Rightarrow>
         (case ev_order_id ev of
            None \<Rightarrow> w
          | Some oid \<Rightarrow>
             if oid = [] then w
             else case pendingPayments w oid of
               None \<Rightarrow> w
             | Some p \<Rightarrow>
                w\<lparr>pendingPayments := (pendingPayments w)(oid \<mapsto> p\<lparr>
                      status := (if ev_order_status ev = Some ''PAID'' then Some ''COMPLETED''
                                 else ev_order_status ev),
                      updatedAt := Some (now e),
                      webhookData := Some (CashfreeEvent ev)\<rparr>),
                  effects := (if ev_order_status ev = Some ''PAID''
                     then dispatch e ''cashfree'' (p\<lparr>
                            status := Some ''COMPLETED'',
                            updatedAt := Some (now e),
                            webhookData := Some (CashfreeEvent ev)\<rparr>) (effects w)
                     else effects w)\<rparr>))"
  by (simp add: cashfreeWebhook_def Let_def split: option.split)

lemma callback_world:
  "fst (phonePeCallback e q w) =
     (case cb_merchantTransactionId q of
        None \<Rightarrow> w
      | Some mid \<Rightarrow>
         if mid = [] then w
         else case pendingPayments w mid of
           None \<Rightarrow> w
         | Some p \<Rightarrow>
            w\<lparr>pendingPayments := (pendingPayments w)(mid \<mapsto>
                  p\<lparr>status := Some (or_else (cb_status q) ''COMPLETED''),
                    updatedAt := Some (now e)\<rparr>)\<rparr>)"
  by (simp add: phonePeCallback_def Let_def split: option.split)

lemma capture_world:
  "fst (capturePayPalPayment e t c orderID w) =
     (if falsy orderID then w
      else case t of
        Inl err \<Rightarrow> w\<lparr>effects := effects w @ [PayPalToken, ConsoleError ''PayPal Capture Error:'']\<rparr>
      | Inr u \<Rightarrow>
         (case c of
            Inl err \<Rightarrow> w\<lparr>effects := effects w @ [PayPalToken,
                         PayPalCaptureCall (js_str orderID),
                         ConsoleError ''PayPal Capture Error:'']\<rparr>
          | Inr d \<Rightarrow>
             (case (case pendingPayments w (js_str orderID) of
                      Some p \<Rightarrow> Inr p
                    | None \<Rightarrow> payment_from_capture (js_str orderID) d) of
                Inl err \<Rightarrow> w\<lparr>effects := effects w @ [PayPalToken,
                             PayPalCaptureCall (js_str orderID),
                             ConsoleError ''PayPal Capture Error:'']\<rparr>
              | Inr p \<Rightarrow>
                 w\<lparr>pendingPayments := (pendingPayments w)(js_str orderID \<mapsto>
                       p\<lparr>status := Some ''COMPLETED'',
                         paypalCaptureData := Some (PayPalCapture d),
                         updatedAt := Some (now e)\<rparr>),
                   effects := dispatch e ''paypal''
                       (p\<lparr>status := Some ''COMPLETED'',
                         paypalCaptureData := Some (PayPalCapture d),
                         updatedAt := Some (now e)\<rparr>)
                       (effects w @ [PayPalToken, PayPalCaptureCall (js_str orderID)])\<rparr>)))"
  by (simp add: capturePayPalPayment_def Let_def split: option.split sum.split)

subsection \<open>Counting side effects\<close>

lemma count_dispatch:
  "length (filter (is_notify i) (dispatch e m p tr))
     = length (filter (is_notify i) tr) + (if merchantTransactionId p = i then 1 else 0)"
  "length (filter (is_archive i) (dispatch e m p tr))
     = length (filter (is_archive i) tr) + (if merchantTransactionId p = i then 1 else 0)"
  by (simp_all add: dispatch_trace)

lemma keyedD: "keyed w \<Longrightarrow> pendingPayments w k = Some p \<Longrightarrow> merchantTransactionId p = k"
  by (simp add: keyed_def)

lemma from_capture_id:
  "payment_from_capture oid c = Inr p \<Longrightarrow> merchantTransactionId p = oid"
  by (auto simp: payment_from_capture_def Let_def split: option.splits list.splits)

text \<open>Every signal keeps the keys of the store, and keeps it keyed.\<close>

lemma apply_signal_dom:
  assumes "i \<in> dom (pendingPayments w)"
  shows "i \<in> dom (pendingPayments (fst (apply_signal s w)))"
proof (cases s)
  case (PhonePeVerify e r mid)
  then show ?thesis
    using assms by (auto simp: verifyPhonePe_world split: option.split sum.split)
next
  case (PhonePeCallback e q)
  then show ?thesis
    using assms by (auto simp: callback_world split: option.split)
next
  case (CashfreeVerify e r mid)
  then show ?thesis
    using assms by (auto simp: verifyCashfree_world split: option.split sum.split)
next
  case (CashfreeWebhook e b)
  then show ?thesis
    using assms by (auto simp: webhook_world split: option.split)
next
  case (PayPalCaptured e t c oid)
  then show ?thesis
    using assms by (auto simp: capture_world split: option.split sum.split)
qed

lemma apply_signal_keyed:
  assumes "keyed w"
  shows "keyed (fst (apply_signal s w))"
proof (cases s)
  case (PhonePeVerify e r mid)
  then show ?thesis
    using assms by (auto simp: verifyPhonePe_world keyed_def split: option.split sum.split)
next
  case (PhonePeCallback e q)
  then show ?thesis
    using assms by (auto simp: callback_world keyed_def split: option.split)
next
  case (CashfreeVerify e r mid)
  then show ?thesis
    using assms by (auto simp: verifyCashfree_world keyed_def split: option.split sum.split)
next
  case (CashfreeWebhook e b)
  then show ?thesis
    using assms by (auto simp: webhook_world keyed_def split: option.split)
next
  case (PayPalCaptured e t c oid)
  then show ?thesis
    using assms
    by (auto simp: capture_world keyed_def dest: from_capture_id split: option.split sum.split)
qed


lemma verifyCashfree_counts:
  assumes "keyed w"
  shows "notified i (fst (verifyCashfreePayment e r mid w))
           = notified i w + (if success_signal i (CashfreeVerify e r mid) \<and> i \<noteq> []
                \<and> i \<in> dom (pendingPayments w) then 1 else 0)
       \<and> archived i (fst (verifyCashfreePayment e r mid w))
           = archived i w + (if success_signal i (CashfreeVerify e r mid) \<and> i \<noteq> []
                \<and> i \<in> dom (pendingPayments w) then 1 else 0)"
proof (cases "pendingPayments w mid")
  case None
  then show ?thesis
    by (auto simp: verifyCashfree_world domIff)
next
  case (Some p)
  then have "merchantTransactionId p = mid"
    using assms by (simp add: keyedD)
  with Some show ?thesis
    by (auto simp add: verifyCashfree_world notified_def archived_def count_dispatch domIff
        split: sum.split option.split)
qed

lemma verifyPhonePe_counts:
  assumes "keyed w"
  shows "notified i (fst (verifyPhonePePayment e r mid w))
           = notified i w + (if success_signal i (PhonePeVerify e r mid) \<and> i \<noteq> []
                \<and> i \<in> dom (pendingPayments w) then 1 else 0)
       \<and> archived i (fst (verifyPhonePePayment e r mid w))
           = archived i w + (if success_signal i (PhonePeVerify e r mid) \<and> i \<noteq> []
                \<and> i \<in> dom (pendingPayments w) then 1 else 0)"
proof (cases "pendingPayments w mid")
  case None
  then show ?thesis
    by (auto simp: verifyPhonePe_world domIff)
next
  case (Some p)
  then have "merchantTransactionId p = mid"
    using assms by (simp add: keyedD)
  with Some show ?thesis
    by (auto simp add: verifyPhonePe_world notified_def archived_def count_dispatch domIff
        split: sum.split)
qed

lemma callback_counts:
  "notified i (fst (phonePeCallback e q w)) = notified i w
     \<and> archived i (fst (phonePeCallback e q w)) = archived i w"
  by (simp add: callback_world notified_def archived_def split: option.split)

lemma webhook_counts:
  assumes "keyed w"
  shows "notified i (fst (cashfreeWebhook e b w))
           = notified i w + (if success_signal i (CashfreeWebhook e b) \<and> i \<noteq> []
                \<and> i \<in> dom (pendingPayments w) then 1 else 0)
       \<and> archived i (fst (cashfreeWebhook e b w))
           = archived i w + (if success_signal i (CashfreeWebhook e b) \<and> i \<noteq> []
                \<and> i \<in> dom (pendingPayments w) then 1 else 0)"
proof (cases b)
  case None
  then show ?thesis
    by (simp add: webhook_world notified_def archived_def)
next
  case (Some ev)
  show ?thesis
  proof (cases "ev_order_id ev")
    case None
    with Some show ?thesis
      by (simp add: webhook_world)
  next
    case (Some oid)
    note oid = this
    show ?thesis
    proof (cases "pendingPayments w oid")
      case None
      with oid \<open>b = Some ev\<close> show ?thesis
        by (auto simp: webhook_world domIff)
    next
      case (Some p)
      then have "merchantTransactionId p = oid"
        using assms by (simp add: keyedD)
      with Some oid \<open>b = Some ev\<close> show ?thesis
        by (auto simp: webhook_world notified_def archived_def count_dispatch domIff)
    qed
  qed
qed

lemma capture_counts:
  assumes "keyed w" and "i \<noteq> []" and "i \<in> dom (pendingPayments w)"
  shows "notified i (fst (capturePayPalPayment e t c oid w))
           = notified i w + (if success_signal i (PayPalCaptured e t c oid) then 1 else 0)
       \<and> archived i (fst (capturePayPalPayment e t c oid w))
           = archived i w + (if success_signal i (PayPalCaptured e t c oid) then 1 else 0)"
proof (cases "oid = Some i")
  case True
  from assms(3) obtain p where p: "pendingPayments w i = Some p"
    by auto
  then have "merchantTransactionId p = i"
    using assms(1) by (simp add: keyedD)
  with True p assms(2) show ?thesis
    by (simp add: capture_world falsy_def js_str_def notified_def archived_def count_dispatch
        split: sum.split)
next
  case False
  show ?thesis
  proof (cases "falsy oid")
    case True
    with False show ?thesis
      by (simp add: capture_world split: sum.split)
  next
    case notfalsy: False
    then obtain j where j: "oid = Some j" "j \<noteq> []"
      by (auto simp: falsy_def split: option.splits)
    with False have ji: "j \<noteq> i"
      by simp
    have made: "merchantTransactionId p = j"
      if "(case pendingPayments w j of Some p \<Rightarrow> Inr p
           | None \<Rightarrow> payment_from_capture (js_str (Some j)) d) = Inr p" for p d
      using that assms(1)
      by (auto simp: js_str_def split: option.splits dest: keyedD from_capture_id)
    show ?thesis
      using j ji made
      by (auto simp: capture_world falsy_def js_str_def notified_def archived_def count_dispatch
          split: sum.split)
  qed
qed

lemma apply_signal_counts:
  assumes "keyed w" and "i \<noteq> []" and "i \<in> dom (pendingPayments w)"
  shows "notified i (fst (apply_signal s w))
           = notified i w + (if success_signal i s then 1 else 0)
       \<and> archived i (fst (apply_signal s w))
           = archived i w + (if success_signal i s then 1 else 0)"
proof (cases s)
  case (PhonePeVerify e r mid)
  then show ?thesis
    using verifyPhonePe_counts [OF assms(1), of i e r mid] assms(2,3) by simp
next
  case (PhonePeCallback e q)
  then show ?thesis
    using callback_counts [of i e q w] by simp
next
  case (CashfreeVerify e r mid)
  then show ?thesis
    using verifyCashfree_counts [OF assms(1), of i e r mid] assms(2,3) by simp
next
  case (CashfreeWebhook e b)
  then show ?thesis
    using webhook_counts [OF assms(1), of i e b] assms(2,3) by simp
next
  case (PayPalCaptured e t c oid)
  then show ?thesis
    using capture_counts [OF assms, of e t c oid] by simp
qed

lemma cashfree_world_eq:
  "cashfree_world = \<lparr>pendingPayments = [''T1'' \<mapsto>
       (new_payment ''T1'' request_500 ''10:00'')\<lparr>cashfreeOrderId := Some ''T1'',
          paymentSessionId := Some ''session_1'', status := Some ''INITIATED''\<rparr>],
     effects = [CashfreeCreateOrder ''T1'']\<rparr>"
  by (simp add: cashfree_world_def initiateCashfreePayment_def request_500_def json_number_def io_ok_def
      empty_world_def amount_falsy_def falsy_def Let_def)

lemma cashfree_world_keyed: "keyed cashfree_world"
  by (simp add: cashfree_world_eq keyed_def new_payment_def)

lemma cashfree_world_counts:
  "notified ''T1'' cashfree_world = 0" "archived ''T1'' cashfree_world = 0"
  by (simp_all add: cashfree_world_eq notified_def archived_def)

subsection \<open>Dispatch of the side effects\<close>

text \<open>
  Claim C1, as the code has it. The handlers keep no record of having dispatched: for a
  transaction that is in the store, every signal that reports success (a PhonePe or
  Cashfree verification that finds the order completed or paid, a Cashfree webhook
  with \<^verbatim>\<open>PAID\<close>, a PayPal capture that returns) issues one admin notification and one
  archive write, each time it is applied, and no other signal issues any. So after any
  sequence of signals the number of notifications, and of archive writes, for the
  transaction has grown by the number of success signals for it in the sequence. The
  PhonePe callback never dispatches, whatever status it stores.
\<close>

theorem dispatch_once_per_success_signal:
  assumes "keyed w" and "i \<noteq> []" and "i \<in> dom (pendingPayments w)"
  shows "notified i (apply_signals ss w) = notified i w + length (filter (success_signal i) ss)
       \<and> archived i (apply_signals ss w) = archived i w + length (filter (success_signal i) ss)"
  using assms
proof (induction ss arbitrary: w)
  case Nil
  then show ?case by simp
next
  case (Cons s ss)
  have k: "keyed (fst (apply_signal s w))"
    using Cons.prems(1) by (rule apply_signal_keyed)
  have d: "i \<in> dom (pendingPayments (fst (apply_signal s w)))"
    using Cons.prems(3) by (rule apply_signal_dom)
  from Cons.IH [OF k Cons.prems(2) d] apply_signal_counts [OF Cons.prems, of s]
  show ?case by simp
qed

theorem dispatch_once_per_success_signal_witness:
  "keyed cashfree_world \<and> ''T1'' \<in> dom (pendingPayments cashfree_world)
   \<and> notified ''T1'' (apply_signals
        [CashfreeVerify io_ok (Inr (Some paid_order)) ''T1'',
         PhonePeCallback io_ok \<lparr>cb_merchantTransactionId = Some ''T1'', cb_status = None\<rparr>,
         CashfreeVerify io_ok (Inl ''timeout'') ''T1'',
         CashfreeWebhook io_down (Some paid_event)] cashfree_world) = 2
   \<and> archived ''T1'' (apply_signals
        [CashfreeVerify io_ok (Inr (Some paid_order)) ''T1'',
         PhonePeCallback io_ok \<lparr>cb_merchantTransactionId = Some ''T1'', cb_status = None\<rparr>,
         CashfreeVerify io_ok (Inl ''timeout'') ''T1'',
         CashfreeWebhook io_down (Some paid_event)] cashfree_world) = 2"
proof -
  have known: "''T1'' \<in> dom (pendingPayments cashfree_world)"
    by (simp add: cashfree_world_T1 domIff)
  have t1: "''T1'' \<noteq> []"
    by simp
  show ?thesis
    using dispatch_once_per_success_signal [OF cashfree_world_keyed t1 known,
        of "[CashfreeVerify io_ok (Inr (Some paid_order)) ''T1'',
         PhonePeCallback io_ok \<lparr>cb_merchantTransactionId = Some ''T1'', cb_status = None\<rparr>,
         CashfreeVerify io_ok (Inl ''timeout'') ''T1'',
         CashfreeWebhook io_down (Some paid_event)]"]
      cashfree_world_keyed known
    by (simp add: cashfree_world_counts paid_order_def paid_event_def)
qed

text \<open>
  Claim C1 as stated fails: the same Cashfree webhook with \<^verbatim>\<open>PAID\<close>, delivered twice
  for the initiated transaction \<^verbatim>\<open>T1\<close>, sends two notifications and writes the archive
  twice.
\<close>

theorem same_success_signal_twice_dispatches_twice:
  "notified ''T1'' (apply_signals
      [CashfreeWebhook io_ok (Some paid_event), CashfreeWebhook io_ok (Some paid_event)]
      cashfree_world) = 2
   \<and> archived ''T1'' (apply_signals
      [CashfreeWebhook io_ok (Some paid_event), CashfreeWebhook io_ok (Some paid_event)]
      cashfree_world) = 2"
proof -
  let ?s = "CashfreeWebhook io_ok (Some paid_event)"
  let ?w1 = "fst (apply_signal ?s cashfree_world)"
  have known: "''T1'' \<in> dom (pendingPayments cashfree_world)"
    by (simp add: cashfree_world_T1 domIff)
  have t1: "''T1'' \<noteq> []"
    by simp
  have s: "success_signal ''T1'' ?s"
    by (simp add: paid_event_def)
  have one: "notified ''T1'' ?w1 = 1 \<and> archived ''T1'' ?w1 = 1"
    using apply_signal_counts [OF cashfree_world_keyed t1 known, of ?s] s
    by (simp add: cashfree_world_counts)
  have k1: "keyed ?w1"
    using cashfree_world_keyed by (rule apply_signal_keyed)
  have d1: "''T1'' \<in> dom (pendingPayments ?w1)"
    using known by (rule apply_signal_dom)
  have two: "notified ''T1'' (fst (apply_signal ?s ?w1)) = 2
      \<and> archived ''T1'' (fst (apply_signal ?s ?w1)) = 2"
    using apply_signal_counts [OF k1 t1 d1, of ?s] s one by simp
  then show ?thesis
    by simp
qed

lemma phonepe_world_eq:
  "phonepe_world = \<lparr>pendingPayments = [''P1'' \<mapsto>
       (new_payment ''P1'' request_500 ''10:00'')\<lparr>phonepeOrderId := Some ''OMO1'',
          redirectUrl := Some ''https://pay.example/P1'', status := Some ''INITIATED'',
          expireAt := Some ''1700000000''\<rparr>],
     effects = [PhonePePayCall ''P1'']\<rparr>"
  by (simp add: phonepe_world_def initiatePhonePePayment_def request_500_def json_number_def io_ok_def
      empty_world_def amount_falsy_def falsy_def Let_def ten_digits_def js_str_def
      isNaN_def amount_le_zero_def)

subsection \<open>The stored status under later signals\<close>

text \<open>
  Claim C3, as the code has it. No stored status is protected. Whatever the status of a
  transaction in the store is, terminal or not, a signal that carries a raw status for
  it overwrites the stored status with that raw status: a PhonePe verification with
  the provider's state (\<^verbatim>\<open>UNKNOWN\<close> when there is none), a PhonePe callback with the
  status of its query (\<^verbatim>\<open>COMPLETED\<close> when there is none), a Cashfree verification with
  the order status, a Cashfree webhook with \<^verbatim>\<open>COMPLETED\<close> for \<^verbatim>\<open>PAID\<close> and the order
  status otherwise, a PayPal capture with \<^verbatim>\<open>COMPLETED\<close>. A signal for another id, or one
  whose provider call fails, leaves the stored status as it was.
\<close>

theorem signal_overwrites_status:
  assumes "i \<noteq> []" and "pendingPayments w i = Some p"
  shows "stored_status (fst (apply_signal s w)) i
           = Some (case carried_status i s of Some st \<Rightarrow> st | None \<Rightarrow> status p)"
proof (cases s)
  case (PhonePeVerify e r mid)
  then show ?thesis
    using assms
    by (auto simp: verifyPhonePe_world stored_status_def split: option.split sum.split)
next
  case (PhonePeCallback e q)
  then show ?thesis
    using assms
    by (auto simp: callback_world stored_status_def split: option.split)
next
  case (CashfreeVerify e r mid)
  then show ?thesis
    using assms
    by (auto simp: verifyCashfree_world stored_status_def split: option.split sum.split)
next
  case (CashfreeWebhook e b)
  then show ?thesis
    using assms
    by (auto simp: webhook_world stored_status_def split: option.split)
next
  case (PayPalCaptured e t c oid)
  then show ?thesis
    using assms
    by (auto simp: capture_world stored_status_def falsy_def js_str_def
        split: option.split sum.split)
qed

theorem signal_overwrites_status_witness:
  "pendingPayments phonepe_world ''P1'' \<noteq> None
   \<and> stored_status (fst (apply_signal
        (PhonePeCallback io_ok \<lparr>cb_merchantTransactionId = Some ''P1'',
           cb_status = Some ''PENDING''\<rparr>) phonepe_world)) ''P1'' = Some (Some ''PENDING'')"
proof -
  have p1: "''P1'' \<noteq> []"
    by simp
  have known: "pendingPayments phonepe_world ''P1'' =
      Some ((new_payment ''P1'' request_500 ''10:00'')\<lparr>phonepeOrderId := Some ''OMO1'',
          redirectUrl := Some ''https://pay.example/P1'', status := Some ''INITIATED'',
          expireAt := Some ''1700000000''\<rparr>)"
    by (simp add: phonepe_world_eq)
  show ?thesis
    using signal_overwrites_status [OF p1 known,
        of "PhonePeCallback io_ok \<lparr>cb_merchantTransactionId = Some ''P1'',
           cb_status = Some ''PENDING''\<rparr>"] known
    by (simp add: or_else_def)
qed

text \<open>
  Claim C3 as stated fails: the PhonePe transaction \<^verbatim>\<open>P1\<close> is verified as
  \<^verbatim>\<open>COMPLETED\<close>, then a callback with status \<^verbatim>\<open>PENDING\<close> arrives, and the stored
  status is \<^verbatim>\<open>PENDING\<close>.
\<close>

theorem completed_payment_goes_back_to_pending:
  "stored_status (apply_signals
      [PhonePeVerify io_ok (Inr (Some \<lparr>ps_state = Some ''COMPLETED'',
          ps_paymentDetails = None\<rparr>)) ''P1''] phonepe_world) ''P1''
     = Some (Some ''COMPLETED'')
   \<and> stored_status (apply_signals
      [PhonePeVerify io_ok (Inr (Some \<lparr>ps_state = Some ''COMPLETED'',
          ps_paymentDetails = None\<rparr>)) ''P1'',
       PhonePeCallback io_ok \<lparr>cb_merchantTransactionId = Some ''P1'',
          cb_status = Some ''PENDING''\<rparr>] phonepe_world) ''P1''
     = Some (Some ''PENDING'')"
  by (simp add: verifyPhonePe_world callback_world phonepe_world_eq stored_status_def
      state_of_def or_else_def)

subsection \<open>The answer of each handler, branch by branch\<close>

lemma verifyPhonePe_response:
  "snd (verifyPhonePePayment e r mid w) =
     (if mid = [] then (reply 400 False)\<lparr>res_message := Some ''Missing transaction ID''\<rparr>
      else case pendingPayments w mid of
        None \<Rightarrow> (reply 404 False)\<lparr>res_message := Some ''Transaction not found''\<rparr>
      | Some p \<Rightarrow>
         (case r of
            Inl err \<Rightarrow> (reply 500 False)\<lparr>res_status := Some ''FAILED'',
               res_message := Some (''Verification failed due to a server error: '' @ err)\<rparr>
          | Inr sr \<Rightarrow>
              if state_of sr = Some ''COMPLETED'' then
                (reply 200 True)\<lparr>res_status := Some ''SUCCESS'',
                   res_message := Some ''Payment successful'',
                   res_data := Some (PhonePeStatus sr)\<rparr>
              else if state_of sr = Some ''PENDING'' then
                (reply 200 False)\<lparr>res_status := Some ''PENDING'',
                   res_message := Some ''Payment is still processing'',
                   res_data := Some (PhonePeStatus sr)\<rparr>
              else case sr of
                None \<Rightarrow> (reply 500 False)\<lparr>res_status := Some ''FAILED'',
                   res_message := Some (''Verification failed due to a server error: ''
                      @ ''Cannot read properties of null (reading paymentDetails)'')\<rparr>
              | Some s \<Rightarrow> (reply 200 False)\<lparr>res_status := Some ''FAILED'',
                   res_message := Some (''Payment failed or was cancelled. '' @ errorInfo s),
                   res_data := Some (PhonePeStatus sr)\<rparr>))"
  by (simp add: verifyPhonePePayment_def verifyPhonePePayment_try_def Let_def
      split: option.split sum.split)

lemma verifyCashfree_response:
  "snd (verifyCashfreePayment e r mid w) =
     (if mid = [] then (reply 400 False)\<lparr>res_message := Some ''Missing transaction ID''\<rparr>
      else case pendingPayments w mid of
        None \<Rightarrow> (reply 404 False)\<lparr>res_message := Some ''Transaction not found''\<rparr>
      | Some p \<Rightarrow>
         (case r of
            Inl err \<Rightarrow> (reply 500 False)\<lparr>res_status := Some ''FAILED'',
               res_message := Some (''Verification failed due to a server error: '' @ err)\<rparr>
          | Inr None \<Rightarrow> (reply 500 False)\<lparr>res_status := Some ''FAILED'',
               res_message := Some (''Verification failed due to a server error: ''
                  @ ''Cannot read properties of undefined (reading order_status)'')\<rparr>
          | Inr (Some d) \<Rightarrow>
              if cf_order_status d = Some ''PAID'' then
                (reply 200 True)\<lparr>res_status := Some ''SUCCESS'',
                   res_message := Some ''Payment successful'',
                   res_data := Some (CashfreeOrder (Some d))\<rparr>
              else if cf_order_status d = Some ''ACTIVE'' then
                (reply 200 False)\<lparr>res_status := Some ''PENDING'',
                   res_message := Some ''Payment is still processing'',
                   res_data := Some (CashfreeOrder (Some d))\<rparr>
              else (reply 200 False)\<lparr>res_status := Some ''FAILED'',
                   res_message := Some (''Payment failed or was cancelled. Status: ''
                      @ js_str (cf_order_status d)),
                   res_data := Some (CashfreeOrder (Some d))\<rparr>))"
  by (simp add: verifyCashfreePayment_def verifyCashfreePayment_try_def Let_def
      split: option.split sum.split)

lemma capture_response:
  "snd (capturePayPalPayment e t c orderID w) =
     (if falsy orderID then (reply 400 False)\<lparr>res_message := Some ''Missing order ID''\<rparr>
      else case t of
        Inl err \<Rightarrow> (reply 500 False)\<lparr>res_message := Some (''Capture failed: '' @ err)\<rparr>
      | Inr u \<Rightarrow>
         (case c of
            Inl err \<Rightarrow> (reply 500 False)\<lparr>res_message := Some (''Capture failed: '' @ err)\<rparr>
          | Inr d \<Rightarrow>
             (case (case pendingPayments w (js_str orderID) of
                      Some p \<Rightarrow> Inr p
                    | None \<Rightarrow> payment_from_capture (js_str orderID) d) of
                Inl err \<Rightarrow> (reply 500 False)\<lparr>res_message := Some (''Capture failed: '' @ err)\<rparr>
              | Inr p \<Rightarrow> (reply 200 True)\<lparr>res_data := Some (PayPalCapture d)\<rparr>)))"
  by (simp add: capturePayPalPayment_def Let_def split: option.split sum.split)


subsection \<open>A provider query that fails\<close>

text \<open>
  Claim C8, as the code has it. When the provider's status query itself throws during a
  verification of a transaction in the store, the stored payments are left as they
  were, so that a later verification answers, and stores, exactly what it would have
  without the failed one. The answer reports the same outcome as a failed payment,
  \<^verbatim>\<open>success: false\<close> and \<^verbatim>\<open>status: 'FAILED'\<close>; what sets it apart is only the HTTP
  status 500, where every answer about the payment itself has 200, and the message
  \<^verbatim>\<open>Verification failed due to a server error\<close>.
\<close>

theorem provider_error_leaves_state:
  assumes "mid \<noteq> []" and "pendingPayments w mid = Some p"
  shows "verifyPhonePePayment e (Inl err) mid w
           = (w\<lparr>effects := effects w @ [PhonePeGetOrderStatus mid,
                  ConsoleError ''PhonePe Verification Error:'']\<rparr>,
              \<lparr>res_code = 500, res_success = False, res_status = Some ''FAILED'',
                res_message = Some (''Verification failed due to a server error: '' @ err),
                res_data = None, res_redirectUrl = None, res_merchantTransactionId = None,
                res_orderId = None, res_paymentSessionId = None\<rparr>)
       \<and> res_code (snd (verifyPhonePePayment e' (Inr (Some s)) mid w)) = 200
       \<and> snd (verifyPhonePePayment e' r' mid (fst (verifyPhonePePayment e (Inl err) mid w)))
           = snd (verifyPhonePePayment e' r' mid w)
       \<and> pendingPayments (fst (verifyPhonePePayment e' r' mid
             (fst (verifyPhonePePayment e (Inl err) mid w))))
           = pendingPayments (fst (verifyPhonePePayment e' r' mid w))
       \<and> verifyCashfreePayment e (Inl err) mid w
           = (w\<lparr>effects := effects w @ [CashfreeFetchOrder mid,
                  ConsoleError ''Cashfree Verification Error:'']\<rparr>,
              \<lparr>res_code = 500, res_success = False, res_status = Some ''FAILED'',
                res_message = Some (''Verification failed due to a server error: '' @ err),
                res_data = None, res_redirectUrl = None, res_merchantTransactionId = None,
                res_orderId = None, res_paymentSessionId = None\<rparr>)
       \<and> res_code (snd (verifyCashfreePayment e' (Inr (Some d)) mid w)) = 200
       \<and> snd (verifyCashfreePayment e' c' mid (fst (verifyCashfreePayment e (Inl err) mid w)))
           = snd (verifyCashfreePayment e' c' mid w)
       \<and> pendingPayments (fst (verifyCashfreePayment e' c' mid
             (fst (verifyCashfreePayment e (Inl err) mid w))))
           = pendingPayments (fst (verifyCashfreePayment e' c' mid w))"
proof -
  have pp: "verifyPhonePePayment e (Inl err) mid w
           = (w\<lparr>effects := effects w @ [PhonePeGetOrderStatus mid,
                  ConsoleError ''PhonePe Verification Error:'']\<rparr>,
              \<lparr>res_code = 500, res_success = False, res_status = Some ''FAILED'',
                res_message = Some (''Verification failed due to a server error: '' @ err),
                res_data = None, res_redirectUrl = None, res_merchantTransactionId = None,
                res_orderId = None, res_paymentSessionId = None\<rparr>)"
    using assms
    by (simp add: verifyPhonePePayment_def verifyPhonePePayment_try_def reply_def)
  have cf: "verifyCashfreePayment e (Inl err) mid w
           = (w\<lparr>effects := effects w @ [CashfreeFetchOrder mid,
                  ConsoleError ''Cashfree Verification Error:'']\<rparr>,
              \<lparr>res_code = 500, res_success = False, res_status = Some ''FAILED'',
                res_message = Some (''Verification failed due to a server error: '' @ err),
                res_data = None, res_redirectUrl = None, res_merchantTransactionId = None,
                res_orderId = None, res_paymentSessionId = None\<rparr>)"
    using assms
    by (simp add: verifyCashfreePayment_def verifyCashfreePayment_try_def reply_def)
  have rest: "res_code (snd (verifyPhonePePayment e' (Inr (Some s)) mid w)) = 200
       \<and> snd (verifyPhonePePayment e' r' mid (fst (verifyPhonePePayment e (Inl err) mid w)))
           = snd (verifyPhonePePayment e' r' mid w)
       \<and> pendingPayments (fst (verifyPhonePePayment e' r' mid
             (fst (verifyPhonePePayment e (Inl err) mid w))))
           = pendingPayments (fst (verifyPhonePePayment e' r' mid w))
       \<and> res_code (snd (verifyCashfreePayment e' (Inr (Some d)) mid w)) = 200
       \<and> snd (verifyCashfreePayment e' c' mid (fst (verifyCashfreePayment e (Inl err) mid w)))
           = snd (verifyCashfreePayment e' c' mid w)
       \<and> pendingPayments (fst (verifyCashfreePayment e' c' mid
             (fst (verifyCashfreePayment e (Inl err) mid w))))
           = pendingPayments (fst (verifyCashfreePayment e' c' mid w))"
    using assms
    by (simp add: verifyPhonePe_world verifyPhonePe_response verifyCashfree_world
        verifyCashfree_response reply_def split: sum.split option.split)
  from pp cf rest show ?thesis
    by simp
qed

theorem provider_error_leaves_state_witness:
  "pendingPayments cashfree_world ''T1'' \<noteq> None
   \<and> pendingPayments (fst (verifyCashfreePayment io_ok (Inl ''timeout'') ''T1'' cashfree_world))
        = pendingPayments cashfree_world
   \<and> res_code (snd (verifyCashfreePayment io_ok (Inl ''timeout'') ''T1'' cashfree_world)) = 500
   \<and> res_status (snd (verifyCashfreePayment io_ok (Inl ''timeout'') ''T1'' cashfree_world))
        = Some ''FAILED''
   \<and> res_status (snd (verifyCashfreePayment io_ok (Inr (Some paid_order)) ''T1''
        (fst (verifyCashfreePayment io_ok (Inl ''timeout'') ''T1'' cashfree_world))))
        = Some ''SUCCESS''"
proof -
  have t1: "''T1'' \<noteq> []"
    by simp
  have paid: "res_status (snd (verifyCashfreePayment io_ok (Inr (Some paid_order)) ''T1''
      cashfree_world)) = Some ''SUCCESS''"
    by (simp add: verifyCashfree_response cashfree_world_T1 paid_order_def)
  note th = provider_error_leaves_state [OF t1 cashfree_world_T1, where e = io_ok
        and err = "''timeout''" and e' = io_ok and s = failed_status and r' = "Inl []"
        and d = paid_order and c' = "Inr (Some paid_order)"]
  from th have answer: "verifyCashfreePayment io_ok (Inl ''timeout'') ''T1'' cashfree_world
      = (cashfree_world\<lparr>effects := effects cashfree_world @ [CashfreeFetchOrder ''T1'',
             ConsoleError ''Cashfree Verification Error:'']\<rparr>,
         \<lparr>res_code = 500, res_success = False, res_status = Some ''FAILED'',
           res_message = Some (''Verification failed due to a server error: '' @ ''timeout''),
           res_data = None, res_redirectUrl = None, res_merchantTransactionId = None,
           res_orderId = None, res_paymentSessionId = None\<rparr>)"
    by (elim conjE) assumption
  from th have retry: "snd (verifyCashfreePayment io_ok (Inr (Some paid_order)) ''T1''
        (fst (verifyCashfreePayment io_ok (Inl ''timeout'') ''T1'' cashfree_world)))
      = snd (verifyCashfreePayment io_ok (Inr (Some paid_order)) ''T1'' cashfree_world)"
    by (elim conjE) assumption
  show ?thesis
    using retry paid by (simp add: answer cashfree_world_T1)
qed

text \<open>
  Claim C8 as stated fails: for the PhonePe transaction \<^verbatim>\<open>P1\<close>, the answer to a
  verification whose provider query throws has the same \<^verbatim>\<open>success\<close> and \<^verbatim>\<open>status\<close> as
  the answer to a verification that finds the payment failed.
\<close>

theorem provider_error_reported_as_failed:
  "res_status (snd (verifyPhonePePayment io_ok (Inl ''timeout'') ''P1'' phonepe_world))
     = Some ''FAILED''
   \<and> res_status (snd (verifyPhonePePayment io_ok (Inr (Some failed_status)) ''P1''
        phonepe_world)) = Some ''FAILED''
   \<and> res_success (snd (verifyPhonePePayment io_ok (Inl ''timeout'') ''P1'' phonepe_world))
     = res_success (snd (verifyPhonePePayment io_ok (Inr (Some failed_status)) ''P1''
        phonepe_world))"
  by (simp add: verifyPhonePe_response phonepe_world_eq state_of_def failed_status_def
      reply_def)

subsection \<open>Translation of the provider status\<close>




lemma callback_response:
  "snd (phonePeCallback e q w) = (reply 200 True)\<lparr>res_message := Some ''Callback processed''\<rparr>"
  by (simp add: phonePeCallback_def Let_def split: option.split)

lemma webhook_response:
  "snd (cashfreeWebhook e b w) =
     (case b of None \<Rightarrow> (reply 500 False)\<lparr>res_message := Some ''Webhook failed''\<rparr>
      | Some ev \<Rightarrow> (reply 200 True)\<lparr>res_message := Some ''Webhook processed''\<rparr>)"
  by (simp add: cashfreeWebhook_def Let_def split: option.split)

subsection \<open>Signals for an id that is not in the store\<close>

lemma declined_capture_payment:
  "payment_from_capture ''X9'' declined_capture = Inr \<lparr>
     merchantTransactionId = ''X9'',
     amount = Text ''500.00'',
     customerName = Some ''Asha Rao'',
     customerEmail = Some ''asha@example.com'',
     customerPhone = Some ''Not provided via PayPal'',
     ecommPlan = Some ''Pro + Basic'',
     hostingPlan = Some ''Standard'',
     status = None, createdAt = None,
     updatedAt = None, verifiedAt = None, phonepeOrderId = None,
     redirectUrl = None, expireAt = None, cashfreeOrderId = None,
     paymentSessionId = None, paymentDetails = None, webhookData = None,
     paypalCaptureData = None, paymentMethod = None\<rparr>"
  by (simp add: payment_from_capture_def declined_capture_def Let_def js_str_def or_else_def
      second_piece_def js_trim_def)

text \<open>
  Claim C6, as the code has it. Take an id that is not in the store and is not a name
  the store object inherits. A PhonePe or Cashfree verification for it is rejected
  with 404 \<^verbatim>\<open>Transaction not found\<close>, without an exception and before any provider
  call, and the world is unchanged. A PhonePe callback and a Cashfree webhook change
  nothing either, but are acknowledged with 200 rather than reported as not found.
  A PayPal capture is not rejected: when the capture call returns, a payment is made
  up from the capture response, stored under the order id as \<^verbatim>\<open>COMPLETED\<close>, answered
  with success, and the admin notification and the archive write are issued for it;
  only when making it up throws is nothing stored and nothing dispatched, and the
  \<^verbatim>\<open>catch\<close> arm answers 500.
\<close>

theorem unknown_id_signals:
  assumes "i \<noteq> []" and "\<not> inherited_name i" and "pendingPayments w i = None"
  shows "verifyPhonePePayment_try e r i w
           = (w, Inr ((reply 404 False)\<lparr>res_message := Some ''Transaction not found''\<rparr>))
       \<and> verifyPhonePePayment e r i w
           = (w, (reply 404 False)\<lparr>res_message := Some ''Transaction not found''\<rparr>)
       \<and> verifyCashfreePayment_try e r' i w
           = (w, Inr ((reply 404 False)\<lparr>res_message := Some ''Transaction not found''\<rparr>))
       \<and> verifyCashfreePayment e r' i w
           = (w, (reply 404 False)\<lparr>res_message := Some ''Transaction not found''\<rparr>)
       \<and> phonePeCallback e \<lparr>cb_merchantTransactionId = Some i, cb_status = st\<rparr> w
           = (w, (reply 200 True)\<lparr>res_message := Some ''Callback processed''\<rparr>)
       \<and> cashfreeWebhook e (Some \<lparr>ev_order_id = Some i, ev_order_status = st\<rparr>) w
           = (w, (reply 200 True)\<lparr>res_message := Some ''Webhook processed''\<rparr>)
       \<and> (case payment_from_capture i c of
             Inr q \<Rightarrow>
               pendingPayments (fst (capturePayPalPayment e (Inr ()) (Inr c) (Some i) w))
                 = (pendingPayments w)(i \<mapsto> q\<lparr>status := Some ''COMPLETED'',
                      paypalCaptureData := Some (PayPalCapture c), updatedAt := Some (now e)\<rparr>)
               \<and> snd (capturePayPalPayment e (Inr ()) (Inr c) (Some i) w)
                 = (reply 200 True)\<lparr>res_data := Some (PayPalCapture c)\<rparr>
               \<and> notified i (fst (capturePayPalPayment e (Inr ()) (Inr c) (Some i) w))
                 = notified i w + 1
               \<and> archived i (fst (capturePayPalPayment e (Inr ()) (Inr c) (Some i) w))
                 = archived i w + 1
           | Inl err \<Rightarrow>
               pendingPayments (fst (capturePayPalPayment e (Inr ()) (Inr c) (Some i) w))
                 = pendingPayments w
               \<and> snd (capturePayPalPayment e (Inr ()) (Inr c) (Some i) w)
                 = (reply 500 False)\<lparr>res_message := Some (''Capture failed: '' @ err)\<rparr>
               \<and> notified i (fst (capturePayPalPayment e (Inr ()) (Inr c) (Some i) w))
                 = notified i w
               \<and> archived i (fst (capturePayPalPayment e (Inr ()) (Inr c) (Some i) w))
                 = archived i w)"
proof -
  have a: "verifyPhonePePayment_try e r i w
           = (w, Inr ((reply 404 False)\<lparr>res_message := Some ''Transaction not found''\<rparr>))"
    using assms by (simp add: verifyPhonePePayment_try_def)
  have b: "verifyCashfreePayment_try e r' i w
           = (w, Inr ((reply 404 False)\<lparr>res_message := Some ''Transaction not found''\<rparr>))"
    using assms by (simp add: verifyCashfreePayment_try_def)
  have a': "verifyPhonePePayment e r i w
           = (w, (reply 404 False)\<lparr>res_message := Some ''Transaction not found''\<rparr>)"
    by (simp add: verifyPhonePePayment_def a)
  have b': "verifyCashfreePayment e r' i w
           = (w, (reply 404 False)\<lparr>res_message := Some ''Transaction not found''\<rparr>)"
    by (simp add: verifyCashfreePayment_def b)
  have c: "phonePeCallback e \<lparr>cb_merchantTransactionId = Some i, cb_status = st\<rparr> w
           = (w, (reply 200 True)\<lparr>res_message := Some ''Callback processed''\<rparr>)"
    using assms by (simp add: phonePeCallback_def)
  have d: "cashfreeWebhook e (Some \<lparr>ev_order_id = Some i, ev_order_status = st\<rparr>) w
           = (w, (reply 200 True)\<lparr>res_message := Some ''Webhook processed''\<rparr>)"
    using assms by (simp add: cashfreeWebhook_def)
  have f: "(case payment_from_capture i c of
             Inr q \<Rightarrow>
               pendingPayments (fst (capturePayPalPayment e (Inr ()) (Inr c) (Some i) w))
                 = (pendingPayments w)(i \<mapsto> q\<lparr>status := Some ''COMPLETED'',
                      paypalCaptureData := Some (PayPalCapture c), updatedAt := Some (now e)\<rparr>)
               \<and> snd (capturePayPalPayment e (Inr ()) (Inr c) (Some i) w)
                 = (reply 200 True)\<lparr>res_data := Some (PayPalCapture c)\<rparr>
               \<and> notified i (fst (capturePayPalPayment e (Inr ()) (Inr c) (Some i) w))
                 = notified i w + 1
               \<and> archived i (fst (capturePayPalPayment e (Inr ()) (Inr c) (Some i) w))
                 = archived i w + 1
           | Inl err \<Rightarrow>
               pendingPayments (fst (capturePayPalPayment e (Inr ()) (Inr c) (Some i) w))
                 = pendingPayments w
               \<and> snd (capturePayPalPayment e (Inr ()) (Inr c) (Some i) w)
                 = (reply 500 False)\<lparr>res_message := Some (''Capture failed: '' @ err)\<rparr>
               \<and> notified i (fst (capturePayPalPayment e (Inr ()) (Inr c) (Some i) w))
                 = notified i w
               \<and> archived i (fst (capturePayPalPayment e (Inr ()) (Inr c) (Some i) w))
                 = archived i w)"
  proof (cases "payment_from_capture i c")
    case (Inl err)
    then show ?thesis
      using assms
      by (simp add: capture_world capture_response falsy_def js_str_def notified_def
          archived_def)
  next
    case (Inr q)
    then have "merchantTransactionId q = i"
      by (rule from_capture_id)
    with Inr show ?thesis
      using assms
      by (simp add: capture_world capture_response falsy_def js_str_def notified_def
          archived_def count_dispatch)
  qed
  from a a' b b' c d f show ?thesis
    by simp
qed

theorem unknown_id_signals_witness:
  "''X9'' \<noteq> [] \<and> \<not> inherited_name ''X9'' \<and> pendingPayments empty_world ''X9'' = None
   \<and> verifyPhonePePayment io_ok (Inr (Some failed_status)) ''X9'' empty_world
        = (empty_world, (reply 404 False)\<lparr>res_message := Some ''Transaction not found''\<rparr>)
   \<and> cashfreeWebhook io_ok (Some \<lparr>ev_order_id = Some ''X9'', ev_order_status = Some ''PAID''\<rparr>)
        empty_world
        = (empty_world, (reply 200 True)\<lparr>res_message := Some ''Webhook processed''\<rparr>)
   \<and> res_code (snd (capturePayPalPayment io_ok (Inr ()) (Inr declined_capture) (Some ''X9'')
        empty_world)) = 200
   \<and> archived ''X9'' (fst (capturePayPalPayment io_ok (Inr ()) (Inr declined_capture)
        (Some ''X9'') empty_world)) = 1"
proof -
  have x9: "''X9'' \<noteq> []"
    by simp
  have plain: "\<not> inherited_name ''X9''"
    by (simp add: inherited_name_def)
  have unknown: "pendingPayments empty_world ''X9'' = None"
    by (simp add: empty_world_def)
  have none: "archived ''X9'' empty_world = 0"
    by (simp add: archived_def empty_world_def)
  note th = unknown_id_signals [OF x9 plain unknown, where e = io_ok
      and r = "Inr (Some failed_status)" and r' = "Inl []" and st = "Some ''PAID''"
      and c = declined_capture]
  from th have v: "verifyPhonePePayment io_ok (Inr (Some failed_status)) ''X9'' empty_world
        = (empty_world, (reply 404 False)\<lparr>res_message := Some ''Transaction not found''\<rparr>)"
    by (elim conjE) assumption
  from th have h: "cashfreeWebhook io_ok
        (Some \<lparr>ev_order_id = Some ''X9'', ev_order_status = Some ''PAID''\<rparr>) empty_world
        = (empty_world, (reply 200 True)\<lparr>res_message := Some ''Webhook processed''\<rparr>)"
    by (elim conjE) assumption
  from th have p: "snd (capturePayPalPayment io_ok (Inr ()) (Inr declined_capture)
        (Some ''X9'') empty_world) = (reply 200 True)\<lparr>res_data := Some (PayPalCapture
          declined_capture)\<rparr>
      \<and> archived ''X9'' (fst (capturePayPalPayment io_ok (Inr ()) (Inr declined_capture)
        (Some ''X9'') empty_world)) = archived ''X9'' empty_world + 1"
    by (simp add: declined_capture_payment)
  from v h p x9 plain unknown none show ?thesis
    by (simp add: reply_def)
qed

text \<open>
  Claim C6 as stated fails for PayPal: a capture for the order id \<^verbatim>\<open>X9\<close>, which was
  never initiated, stores a payment under that id, answers with success and notifies
  the admin.
\<close>

theorem paypal_capture_makes_up_record:
  "pendingPayments empty_world ''X9'' = None
   \<and> stored_status (fst (capturePayPalPayment io_ok (Inr ()) (Inr declined_capture)
        (Some ''X9'') empty_world)) ''X9'' = Some (Some ''COMPLETED'')
   \<and> res_success (snd (capturePayPalPayment io_ok (Inr ()) (Inr declined_capture)
        (Some ''X9'') empty_world))
   \<and> notified ''X9'' (fst (capturePayPalPayment io_ok (Inr ()) (Inr declined_capture)
        (Some ''X9'') empty_world)) = 1"
  by (simp add: capture_world capture_response falsy_def js_str_def stored_status_def
      reply_def notified_def count_dispatch empty_world_def declined_capture_payment)

subsection \<open>Unrecognised and missing statuses\<close>

text \<open>
  Claim C7, as the code has it. For a transaction in the store and a provider answer
  that is an object whose status is missing or not one of the recognised values, a
  PhonePe or Cashfree verification answers \<^verbatim>\<open>FAILED\<close> with HTTP 200 without any
  exception being thrown, and issues nothing but the provider query: no notification,
  no archive write. The PhonePe callback throws nothing and dispatches nothing either,
  but it does not translate to \<^verbatim>\<open>FAILED\<close>: it stores the status of its query as it is,
  and \<^verbatim>\<open>COMPLETED\<close> when the query has none.
\<close>

theorem unrecognised_status:
  assumes "mid \<noteq> []" and "pendingPayments w mid = Some p"
    and "ps_state s \<noteq> Some ''COMPLETED''" and "ps_state s \<noteq> Some ''PENDING''"
    and "cf_order_status d \<noteq> Some ''PAID''" and "cf_order_status d \<noteq> Some ''ACTIVE''"
  shows "snd (verifyPhonePePayment_try e (Inr (Some s)) mid w)
           = Inr ((reply 200 False)\<lparr>res_status := Some ''FAILED'',
                res_message := Some (''Payment failed or was cancelled. '' @ errorInfo s),
                res_data := Some (PhonePeStatus (Some s))\<rparr>)
       \<and> effects (fst (verifyPhonePePayment e (Inr (Some s)) mid w))
           = effects w @ [PhonePeGetOrderStatus mid]
       \<and> snd (verifyCashfreePayment_try e (Inr (Some d)) mid w)
           = Inr ((reply 200 False)\<lparr>res_status := Some ''FAILED'',
                res_message := Some (''Payment failed or was cancelled. Status: ''
                   @ js_str (cf_order_status d)),
                res_data := Some (CashfreeOrder (Some d))\<rparr>)
       \<and> effects (fst (verifyCashfreePayment e (Inr (Some d)) mid w))
           = effects w @ [CashfreeFetchOrder mid]
       \<and> stored_status (fst (phonePeCallback e
             \<lparr>cb_merchantTransactionId = Some mid, cb_status = st\<rparr> w)) mid
           = Some (Some (or_else st ''COMPLETED''))
       \<and> effects (fst (phonePeCallback e
             \<lparr>cb_merchantTransactionId = Some mid, cb_status = st\<rparr> w)) = effects w
       \<and> res_code (snd (phonePeCallback e
             \<lparr>cb_merchantTransactionId = Some mid, cb_status = st\<rparr> w)) = 200"
  using assms
  by (simp add: verifyPhonePePayment_try_def verifyCashfreePayment_try_def verifyPhonePe_world
      verifyCashfree_world callback_world callback_response state_of_def stored_status_def
      reply_def Let_def)

theorem unrecognised_status_witness:
  "pendingPayments phonepe_world ''P1'' \<noteq> None
   \<and> ps_state failed_status \<noteq> Some ''COMPLETED'' \<and> ps_state failed_status \<noteq> Some ''PENDING''
   \<and> snd (verifyPhonePePayment_try io_ok (Inr (Some failed_status)) ''P1'' phonepe_world)
        = Inr ((reply 200 False)\<lparr>res_status := Some ''FAILED'',
             res_message := Some
               ''Payment failed or was cancelled. Error: TXN_DECLINED - '',
             res_data := Some (PhonePeStatus (Some failed_status))\<rparr>)
   \<and> effects (fst (verifyPhonePePayment io_ok (Inr (Some failed_status)) ''P1'' phonepe_world))
        = [PhonePePayCall ''P1'', PhonePeGetOrderStatus ''P1'']"
proof -
  have p1: "''P1'' \<noteq> []"
    by simp
  have known: "pendingPayments phonepe_world ''P1'' =
      Some ((new_payment ''P1'' request_500 ''10:00'')\<lparr>phonepeOrderId := Some ''OMO1'',
          redirectUrl := Some ''https://pay.example/P1'', status := Some ''INITIATED'',
          expireAt := Some ''1700000000''\<rparr>)"
    by (simp add: phonepe_world_eq)
  have s: "ps_state failed_status \<noteq> Some ''COMPLETED''" "ps_state failed_status \<noteq> Some ''PENDING''"
    by (simp_all add: failed_status_def)
  have d: "cf_order_status \<lparr>cf_order_id = None, cf_order_status = None,
      cf_payment_session_id = None\<rparr> \<noteq> Some ''PAID''"
    "cf_order_status \<lparr>cf_order_id = None, cf_order_status = None,
      cf_payment_session_id = None\<rparr> \<noteq> Some ''ACTIVE''"
    by simp_all
  have ei: "errorInfo failed_status = ''Error: TXN_DECLINED - ''"
    by (simp add: errorInfo_def failed_status_def or_else_def)
  have tr: "effects phonepe_world = [PhonePePayCall ''P1'']"
    by (simp add: phonepe_world_eq)
  show ?thesis
    using unrecognised_status [OF p1 known s d, of io_ok] known s
    by (simp add: ei tr)
qed

text \<open>Not covered by the statement above: when \<^verbatim>\<open>getOrderStatus\<close> answers \<^verbatim>\<open>null\<close>, the failure
  branch reads \<^verbatim>\<open>statusResponse.paymentDetails\<close> and throws, after the status
  \<^verbatim>\<open>UNKNOWN\<close> has been stored; the \<^verbatim>\<open>catch\<close> arm answers 500.\<close>

lemma null_status_response_throws:
  assumes "mid \<noteq> []" and "pendingPayments w mid = Some p"
  shows "snd (verifyPhonePePayment_try e (Inr None) mid w)
           = Inl ''Cannot read properties of null (reading paymentDetails)''
       \<and> stored_status (fst (verifyPhonePePayment e (Inr None) mid w)) mid
           = Some (Some ''UNKNOWN'')
       \<and> res_code (snd (verifyPhonePePayment e (Inr None) mid w)) = 500"
  using assms
  by (simp add: verifyPhonePePayment_try_def verifyPhonePe_world verifyPhonePe_response
      state_of_def or_else_def stored_status_def reply_def Let_def)

text \<open>
  Claim C7 as stated fails: a PhonePe callback without a status, for the initiated
  transaction \<^verbatim>\<open>P1\<close>, stores \<^verbatim>\<open>COMPLETED\<close>, not a failure.
\<close>

theorem callback_without_status_stores_completed:
  "stored_status (fst (phonePeCallback io_ok
      \<lparr>cb_merchantTransactionId = Some ''P1'', cb_status = None\<rparr> phonepe_world)) ''P1''
     = Some (Some ''COMPLETED'')"
  by (simp add: callback_world phonepe_world_eq stored_status_def or_else_def)

subsection \<open>Initiation\<close>

lemma request_500_valid:
  "\<not> amount_falsy (req_amount request_500)" "\<not> falsy (req_customerEmail request_500)"
  "\<not> falsy (req_customerName request_500)" "\<not> falsy (req_customerPhone request_500)"
  "ten_digits (js_str (req_customerPhone request_500))"
  "\<not> isNaN (req_amount request_500)" "\<not> amount_le_zero (req_amount request_500)"
  "req_nameEncodes request_500"
  by (simp_all add: request_500_def json_number_def amount_falsy_def falsy_def ten_digits_def
      js_str_def isNaN_def amount_le_zero_def)

text \<open>
  Claim C5, as the code has it. A PhonePe initiation request that passes validation
  stores one payment under the generated id, with status \<^verbatim>\<open>PENDING\<close> and no provider
  handle, before anything else, and touches no other payment. When the redirect URL
  can be built and the provider returns a redirect URL, that payment is moved to
  \<^verbatim>\<open>INITIATED\<close> and given the handle, and the request succeeds with 200. Otherwise the
  request fails, with 500 when building the URL or the provider call throws and 400
  when the provider returns no redirect URL, and the payment stays in the store as it
  was written: \<^verbatim>\<open>PENDING\<close>, without a handle. A Cashfree initiation request that passes
  its validation does the same with the payment session id as the handle, except
  that it builds the return URL before it stores: when that throws, the request fails
  with 500 and nothing is stored.
\<close>

theorem initiation_persists_before_provider_call:
  "(\<not> amount_falsy (req_amount req) \<and> \<not> falsy (req_customerPhone req)
      \<and> \<not> falsy (req_customerEmail req) \<and> \<not> falsy (req_customerName req)
      \<and> ten_digits (js_str (req_customerPhone req))
      \<and> \<not> isNaN (req_amount req) \<and> \<not> amount_le_zero (req_amount req)
    \<longrightarrow>
      pendingPayments (fst (initiatePhonePePayment e pay newId req w))
        = (pendingPayments w)(newId \<mapsto>
            (if \<not> req_nameEncodes req then new_payment newId req (now e)
             else case pay of
                Inl err \<Rightarrow> new_payment newId req (now e)
              | Inr None \<Rightarrow> new_payment newId req (now e)
              | Inr (Some r) \<Rightarrow>
                  if falsy (pay_redirectUrl r) then new_payment newId req (now e)
                  else (new_payment newId req (now e))\<lparr>phonepeOrderId := pay_orderId r,
                         redirectUrl := pay_redirectUrl r, status := Some ''INITIATED'',
                         expireAt := pay_expireAt r\<rparr>))
      \<and> res_success (snd (initiatePhonePePayment e pay newId req w))
        = (req_nameEncodes req
           \<and> (case pay of Inr (Some r) \<Rightarrow> \<not> falsy (pay_redirectUrl r) | _ \<Rightarrow> False))
      \<and> res_code (snd (initiatePhonePePayment e pay newId req w))
        = (if \<not> req_nameEncodes req then 500
           else case pay of
              Inl err \<Rightarrow> 500
            | Inr None \<Rightarrow> 400
            | Inr (Some r) \<Rightarrow> if falsy (pay_redirectUrl r) then 400 else 200)
      \<and> effects (fst (initiatePhonePePayment e pay newId req w))
        = effects w @
          (if \<not> req_nameEncodes req then [ConsoleError ''PhonePe Payment Error:'']
           else case pay of
              Inl err \<Rightarrow> [PhonePePayCall newId, ConsoleError ''PhonePe Payment Error:'']
            | Inr None \<Rightarrow> [PhonePePayCall newId,
                  ConsoleError ''PhonePe SDK Error: Missing redirect URL'']
            | Inr (Some r) \<Rightarrow>
                if falsy (pay_redirectUrl r)
                then [PhonePePayCall newId,
                  ConsoleError ''PhonePe SDK Error: Missing redirect URL'']
                else [PhonePePayCall newId]))
   \<and> (\<not> amount_falsy (req_amount req) \<and> \<not> falsy (req_customerEmail req)
      \<and> \<not> falsy (req_customerName req)
    \<longrightarrow>
      pendingPayments (fst (initiateCashfreePayment e create newId req w))
        = (if \<not> req_nameEncodes req then pendingPayments w
           else (pendingPayments w)(newId \<mapsto>
             (case create of
                Inl err \<Rightarrow> new_payment newId req (now e)
              | Inr None \<Rightarrow> new_payment newId req (now e)
              | Inr (Some r) \<Rightarrow>
                  if falsy (cf_payment_session_id r) then new_payment newId req (now e)
                  else (new_payment newId req (now e))\<lparr>cashfreeOrderId := cf_order_id r,
                         paymentSessionId := cf_payment_session_id r,
                         status := Some ''INITIATED''\<rparr>)))
      \<and> res_success (snd (initiateCashfreePayment e create newId req w))
        = (req_nameEncodes req
           \<and> (case create of Inr (Some r) \<Rightarrow> \<not> falsy (cf_payment_session_id r)
               | _ \<Rightarrow> False))
      \<and> res_code (snd (initiateCashfreePayment e create newId req w))
        = (if \<not> req_nameEncodes req then 500
           else case create of
              Inl err \<Rightarrow> 500
            | Inr None \<Rightarrow> 400
            | Inr (Some r) \<Rightarrow> if falsy (cf_payment_session_id r) then 400 else 200)
      \<and> effects (fst (initiateCashfreePayment e create newId req w))
        = effects w @
          (if \<not> req_nameEncodes req then [ConsoleError ''Cashfree Payment Error:'']
           else case create of
              Inl err \<Rightarrow> [CashfreeCreateOrder newId, ConsoleError ''Cashfree Payment Error:'']
            | Inr None \<Rightarrow> [CashfreeCreateOrder newId,
                  ConsoleError ''Cashfree Error: Missing payment session ID'']
            | Inr (Some r) \<Rightarrow>
                if falsy (cf_payment_session_id r)
                then [CashfreeCreateOrder newId,
                  ConsoleError ''Cashfree Error: Missing payment session ID'']
                else [CashfreeCreateOrder newId]))
   \<and> status (new_payment newId req (now e)) = Some ''PENDING''
   \<and> redirectUrl (new_payment newId req (now e)) = None
   \<and> paymentSessionId (new_payment newId req (now e)) = None"
proof -
  have c: "status (new_payment newId req (now e)) = Some ''PENDING''
       \<and> redirectUrl (new_payment newId req (now e)) = None
       \<and> paymentSessionId (new_payment newId req (now e)) = None"
    by (simp add: new_payment_def)
  show ?thesis
    by (simp add: c initiatePhonePePayment_def initiateCashfreePayment_def Let_def reply_def
        split: sum.split option.split)
qed


theorem initiation_persists_before_provider_call_witness:
  "\<not> amount_falsy (req_amount request_500) \<and> \<not> falsy (req_customerPhone request_500)
   \<and> \<not> falsy (req_customerEmail request_500) \<and> \<not> falsy (req_customerName request_500)
   \<and> ten_digits (js_str (req_customerPhone request_500))
   \<and> \<not> isNaN (req_amount request_500) \<and> \<not> amount_le_zero (req_amount request_500)
   \<and> pendingPayments (fst (initiatePhonePePayment io_ok (Inl ''timeout'') ''P2'' request_500
        empty_world)) = [''P2'' \<mapsto> new_payment ''P2'' request_500 ''10:00'']
   \<and> res_code (snd (initiatePhonePePayment io_ok (Inl ''timeout'') ''P2'' request_500
        empty_world)) = 500
   \<and> pendingPayments (fst (initiateCashfreePayment io_ok
        (Inr (Some \<lparr>cf_order_id = Some ''T2'', cf_order_status = Some ''ACTIVE'',
           cf_payment_session_id = Some ''session_2''\<rparr>)) ''P2'' request_500 empty_world))
        = [''P2'' \<mapsto> (new_payment ''P2'' request_500 ''10:00'')\<lparr>
             cashfreeOrderId := Some ''T2'', paymentSessionId := Some ''session_2'',
             status := Some ''INITIATED''\<rparr>]
   \<and> res_code (snd (initiateCashfreePayment io_ok
        (Inr (Some \<lparr>cf_order_id = Some ''T2'', cf_order_status = Some ''ACTIVE'',
           cf_payment_session_id = Some ''session_2''\<rparr>)) ''P2'' request_500 empty_world))
        = 200"
  using initiation_persists_before_provider_call [where req = request_500 and e = io_ok
      and pay = "Inl ''timeout''" and newId = "''P2''" and w = empty_world
      and create = "Inr (Some \<lparr>cf_order_id = Some ''T2'', cf_order_status = Some ''ACTIVE'',
         cf_payment_session_id = Some ''session_2''\<rparr>)"]
    request_500_valid
  by (simp add: io_ok_def empty_world_def falsy_def)

text \<open>
  Claim C5 as stated fails: a valid PhonePe initiation whose provider call throws is
  answered with 500 and leaves the payment \<^verbatim>\<open>P2\<close> in the store, \<^verbatim>\<open>PENDING\<close>, with no
  redirect URL and no order id.
\<close>

theorem failed_initiation_leaves_pending_record:
  "res_code (snd (initiatePhonePePayment io_ok (Inl ''timeout'') ''P2'' request_500 empty_world))
     = 500
   \<and> stored_status (fst (initiatePhonePePayment io_ok (Inl ''timeout'') ''P2'' request_500
        empty_world)) ''P2'' = Some (Some ''PENDING'')
   \<and> map_option redirectUrl (pendingPayments (fst (initiatePhonePePayment io_ok
        (Inl ''timeout'') ''P2'' request_500 empty_world)) ''P2'') = Some None
   \<and> map_option phonepeOrderId (pendingPayments (fst (initiatePhonePePayment io_ok
        (Inl ''timeout'') ''P2'' request_500 empty_world)) ''P2'') = Some None"
  by (simp add: initiatePhonePePayment_def request_500_valid Let_def stored_status_def
      new_payment_def reply_def)

text \<open>Scalars other than numbers, seen through their coercions: the Cashfree initiation
  stores 12 for the amount \<^verbatim>\<open>'12abc'\<close>, which the PhonePe initiation rejects; the PhonePe
  initiation accepts \<^verbatim>\<open>true\<close> and stores \<^verbatim>\<open>NaN\<close> for it.\<close>

lemma other_scalar_amounts:
  "map_option amount (pendingPayments (fst (initiateCashfreePayment io_ok (Inl ''timeout'')
      ''T3'' (request_500\<lparr>req_amount := \<lparr>am_truthy = True, am_number = NaN,
         am_parsed = Num 12\<rparr>\<rparr>) empty_world)) ''T3'') = Some (Num 12)"
  "initiatePhonePePayment io_ok (Inl ''timeout'') ''P3''
      (request_500\<lparr>req_amount := \<lparr>am_truthy = True, am_number = NaN,
         am_parsed = Num 12\<rparr>\<rparr>) empty_world
     = (empty_world, (reply 400 False)\<lparr>res_message := Some ''Invalid amount''\<rparr>)"
  "map_option amount (pendingPayments (fst (initiatePhonePePayment io_ok (Inl ''timeout'')
      ''P3'' (request_500\<lparr>req_amount := \<lparr>am_truthy = True, am_number = Num 1,
         am_parsed = NaN\<rparr>\<rparr>) empty_world)) ''P3'') = Some NaN"
  by (simp_all add: initiateCashfreePayment_def initiatePhonePePayment_def request_500_def
      amount_falsy_def falsy_def Let_def new_payment_def parseFloat_def ten_digits_def
      js_str_def isNaN_def amount_le_zero_def)

text \<open>
  Claim C9 at the amount \<^verbatim>\<open>-5\<close>. The Cashfree initiation accepts it: the provider is
  called, the payment is stored with amount \<^verbatim>\<open>-5\<close>, and the answer is a success. The
  PhonePe initiation rejects the same request with 400 \<^verbatim>\<open>Invalid amount\<close> before it
  stores anything or calls the provider.
\<close>

theorem cashfree_accepts_negative_amount:
  "res_code (snd (initiateCashfreePayment io_ok
      (Inr (Some \<lparr>cf_order_id = Some ''T9'', cf_order_status = Some ''ACTIVE'',
         cf_payment_session_id = Some ''session_9''\<rparr>)) ''T9''
      (request_500\<lparr>req_amount := json_number (- 5)\<rparr>) empty_world)) = 200
   \<and> map_option amount (pendingPayments (fst (initiateCashfreePayment io_ok
      (Inr (Some \<lparr>cf_order_id = Some ''T9'', cf_order_status = Some ''ACTIVE'',
         cf_payment_session_id = Some ''session_9''\<rparr>)) ''T9''
      (request_500\<lparr>req_amount := json_number (- 5)\<rparr>) empty_world)) ''T9'')
     = Some (Num (- 5))
   \<and> effects (fst (initiateCashfreePayment io_ok
      (Inr (Some \<lparr>cf_order_id = Some ''T9'', cf_order_status = Some ''ACTIVE'',
         cf_payment_session_id = Some ''session_9''\<rparr>)) ''T9''
      (request_500\<lparr>req_amount := json_number (- 5)\<rparr>) empty_world))
     = [CashfreeCreateOrder ''T9'']
   \<and> initiatePhonePePayment io_ok
      (Inr (Some \<lparr>pay_redirectUrl = Some ''https://pay.example/P9'',
         pay_orderId = Some ''OMO9'', pay_expireAt = None\<rparr>)) ''P9''
      (request_500\<lparr>req_amount := json_number (- 5)\<rparr>) empty_world
     = (empty_world, (reply 400 False)\<lparr>res_message := Some ''Invalid amount''\<rparr>)"
  by (simp add: initiateCashfreePayment_def initiatePhonePePayment_def request_500_def json_number_def
      amount_falsy_def falsy_def Let_def new_payment_def parseFloat_def reply_def
      empty_world_def ten_digits_def js_str_def isNaN_def amount_le_zero_def)

subsection \<open>Two webhook deliveries at once\<close>

text \<open>Run alone, the three atomic pieces of the webhook handler do what the handler
  does.\<close>

lemma webhook_steps_agree:
  "(case webhook_step e b Start w of (w1, p1) \<Rightarrow>
      case webhook_step e b p1 w1 of (w2, p2) \<Rightarrow>
        webhook_step e b p2 w2)
     = (fst (cashfreeWebhook e b w), Finished (snd (cashfreeWebhook e b w)))"
  by (simp add: webhook_step_def cashfreeWebhook_def dispatch_trace Let_def
      split: option.split)

lemma webhook_step_paid:
  assumes "keyed w" and "i \<noteq> []" and "pendingPayments w i = Some p"
    and "ev_order_id ev = Some i" and "ev_order_status ev = Some ''PAID''"
    and "works_on i pc"
  shows "keyed (fst (webhook_step e (Some ev) pc w))
       \<and> i \<in> dom (pendingPayments (fst (webhook_step e (Some ev) pc w)))
       \<and> works_on i (snd (webhook_step e (Some ev) pc w))
       \<and> notified i (fst (webhook_step e (Some ev) pc w)) + mails_issued pc
           = notified i w + mails_issued (snd (webhook_step e (Some ev) pc w))
       \<and> archived i (fst (webhook_step e (Some ev) pc w)) + writes_issued pc
           = archived i w + writes_issued (snd (webhook_step e (Some ev) pc w))"
proof -
  have m: "merchantTransactionId p = i"
    using assms(1,3) by (rule keyedD)
  show ?thesis
  proof (cases pc)
    case Start
    then show ?thesis
      using assms m
      by (auto simp: webhook_step_def Let_def keyed_def notified_def archived_def)
  next
    case (AwaitMail oid p0)
    then show ?thesis
      using assms m
      by (simp add: webhook_step_def Let_def keyed_def notified_def archived_def domIff)
  next
    case AwaitStore
    then show ?thesis
      using assms
      by (simp add: webhook_step_def Let_def keyed_def notified_def archived_def domIff)
  next
    case (Finished r)
    then show ?thesis
      using assms
      by (simp add: webhook_step_def Let_def domIff)
  qed
qed


lemma sched_step_inv:
  assumes "i \<noteq> []"
    and "ev_order_id ev1 = Some i" and "ev_order_status ev1 = Some ''PAID''"
    and "ev_order_id ev2 = Some i" and "ev_order_status ev2 = Some ''PAID''"
    and "progress_inv i n a c"
  shows "progress_inv i n a (sched_step (e1, Some ev1) (e2, Some ev2) b c)"
proof -
  from assms(6) have k: "keyed (shared c)"
    and w1: "works_on i (pc1 c)" and w2: "works_on i (pc2 c)"
    and nc: "notified i (shared c) = n + mails_issued (pc1 c) + mails_issued (pc2 c)"
    and ac: "archived i (shared c) = a + writes_issued (pc1 c) + writes_issued (pc2 c)"
    by (simp_all add: progress_inv_def)
  from assms(6) obtain p where p: "pendingPayments (shared c) i = Some p"
    by (auto simp: progress_inv_def)
  show ?thesis
  proof (cases b)
    case True
    obtain w' pc' where st: "webhook_step e2 (Some ev2) (pc2 c) (shared c) = (w', pc')"
      by (cases "webhook_step e2 (Some ev2) (pc2 c) (shared c)")
    from webhook_step_paid [OF k assms(1) p assms(4,5) w2, of e2] st
    have "keyed w'" "i \<in> dom (pendingPayments w')" "works_on i pc'"
      "notified i w' + mails_issued (pc2 c) = notified i (shared c) + mails_issued pc'"
      "archived i w' + writes_issued (pc2 c) = archived i (shared c) + writes_issued pc'"
      by simp_all
    with True st w1 nc ac show ?thesis
      by (simp add: sched_step_def progress_inv_def)
  next
    case False
    obtain w' pc' where st: "webhook_step e1 (Some ev1) (pc1 c) (shared c) = (w', pc')"
      by (cases "webhook_step e1 (Some ev1) (pc1 c) (shared c)")
    from webhook_step_paid [OF k assms(1) p assms(2,3) w1, of e1] st
    have "keyed w'" "i \<in> dom (pendingPayments w')" "works_on i pc'"
      "notified i w' + mails_issued (pc1 c) = notified i (shared c) + mails_issued pc'"
      "archived i w' + writes_issued (pc1 c) = archived i (shared c) + writes_issued pc'"
      by simp_all
    with False st w2 nc ac show ?thesis
      by (simp add: sched_step_def progress_inv_def)
  qed
qed

lemma run_schedule_inv:
  assumes "i \<noteq> []"
    and "ev_order_id ev1 = Some i" and "ev_order_status ev1 = Some ''PAID''"
    and "ev_order_id ev2 = Some i" and "ev_order_status ev2 = Some ''PAID''"
    and "progress_inv i n a c"
  shows "progress_inv i n a (run_schedule (e1, Some ev1) (e2, Some ev2) sched c)"
  using assms(6)
proof (induction sched arbitrary: c)
  case Nil
  then show ?case by simp
next
  case (Cons b bs)
  have "progress_inv i n a (sched_step (e1, Some ev1) (e2, Some ev2) b c)"
    using assms(1-5) Cons.prems by (rule sched_step_inv)
  then show ?case
    using Cons.IH by simp
qed

lemma finished_issued:
  "is_finished pc \<Longrightarrow> mails_issued pc = 1 \<and> writes_issued pc = 1"
  by (cases pc) simp_all

text \<open>
  Claim C2, as the code has it. The store is a plain object: nothing serializes the
  handlers per id, and no handler looks whether the side effects were dispatched
  before. When two Cashfree webhook deliveries with \<^verbatim>\<open>PAID\<close> for the same stored order
  are in flight together, then under every schedule of their atomic pieces, once both
  have answered, two notifications and two archive writes have been issued for the
  order.
\<close>

theorem concurrent_paid_webhooks_dispatch_twice:
  assumes "keyed w" and "i \<noteq> []" and "i \<in> dom (pendingPayments w)"
    and "ev_order_id ev1 = Some i" and "ev_order_status ev1 = Some ''PAID''"
    and "ev_order_id ev2 = Some i" and "ev_order_status ev2 = Some ''PAID''"
    and "both_finished (run_schedule (e1, Some ev1) (e2, Some ev2) sched
           \<lparr>shared = w, pc1 = Start, pc2 = Start\<rparr>)"
  shows "notified i (shared (run_schedule (e1, Some ev1) (e2, Some ev2) sched
           \<lparr>shared = w, pc1 = Start, pc2 = Start\<rparr>)) = notified i w + 2
       \<and> archived i (shared (run_schedule (e1, Some ev1) (e2, Some ev2) sched
           \<lparr>shared = w, pc1 = Start, pc2 = Start\<rparr>)) = archived i w + 2"
proof -
  let ?c = "run_schedule (e1, Some ev1) (e2, Some ev2) sched
           \<lparr>shared = w, pc1 = Start, pc2 = Start\<rparr>"
  have "progress_inv i (notified i w) (archived i w) \<lparr>shared = w, pc1 = Start, pc2 = Start\<rparr>"
    using assms(1,3) by (simp add: progress_inv_def)
  then have "progress_inv i (notified i w) (archived i w) ?c"
    using assms(2,4-7) run_schedule_inv by blast
  moreover have "mails_issued (pc1 ?c) = 1 \<and> writes_issued (pc1 ?c) = 1"
    using assms(8) by (simp add: both_finished_def finished_issued)
  moreover have "mails_issued (pc2 ?c) = 1 \<and> writes_issued (pc2 ?c) = 1"
    using assms(8) by (simp add: both_finished_def finished_issued)
  ultimately show ?thesis
    by (simp add: progress_inv_def)
qed

lemma sequential_finished:
  "both_finished (run_schedule (io_ok, Some paid_event) (io_down, Some paid_event)
      [False, False, False, True, True, True]
      \<lparr>shared = cashfree_world, pc1 = Start, pc2 = Start\<rparr>)"
  by (simp add: both_finished_def sched_step_def webhook_step_def cashfree_world_eq
      paid_event_def io_ok_def io_down_def Let_def)

theorem concurrent_paid_webhooks_dispatch_twice_witness:
  "keyed cashfree_world \<and> ''T1'' \<in> dom (pendingPayments cashfree_world)
   \<and> ev_order_id paid_event = Some ''T1'' \<and> ev_order_status paid_event = Some ''PAID''
   \<and> both_finished (run_schedule (io_ok, Some paid_event) (io_down, Some paid_event)
        [False, False, False, True, True, True]
        \<lparr>shared = cashfree_world, pc1 = Start, pc2 = Start\<rparr>)
   \<and> notified ''T1'' (shared (run_schedule (io_ok, Some paid_event) (io_down, Some paid_event)
        [False, False, False, True, True, True]
        \<lparr>shared = cashfree_world, pc1 = Start, pc2 = Start\<rparr>)) = 2
   \<and> archived ''T1'' (shared (run_schedule (io_ok, Some paid_event) (io_down, Some paid_event)
        [False, False, False, True, True, True]
        \<lparr>shared = cashfree_world, pc1 = Start, pc2 = Start\<rparr>)) = 2"
proof -
  have known: "''T1'' \<in> dom (pendingPayments cashfree_world)"
    by (simp add: cashfree_world_T1 domIff)
  have t1: "''T1'' \<noteq> []"
    by simp
  have ev: "ev_order_id paid_event = Some ''T1''" "ev_order_status paid_event = Some ''PAID''"
    by (simp_all add: paid_event_def)
  from concurrent_paid_webhooks_dispatch_twice [OF cashfree_world_keyed t1 known ev ev
      sequential_finished]
  show ?thesis
    using cashfree_world_keyed known ev sequential_finished
    by (simp add: cashfree_world_counts)
qed

text \<open>
  Claim C2 as stated fails: two \<^verbatim>\<open>PAID\<close> deliveries for \<^verbatim>\<open>T1\<close> whose pieces alternate
  strictly both run to their answer, and two notifications and two archive writes
  are issued, not one of each.
\<close>

theorem simultaneous_paid_webhooks_notify_twice:
  "both_finished (run_schedule (io_ok, Some paid_event) (io_ok, Some paid_event)
      [False, True, False, True, False, True]
      \<lparr>shared = cashfree_world, pc1 = Start, pc2 = Start\<rparr>)
   \<and> notified ''T1'' (shared (run_schedule (io_ok, Some paid_event) (io_ok, Some paid_event)
      [False, True, False, True, False, True]
      \<lparr>shared = cashfree_world, pc1 = Start, pc2 = Start\<rparr>)) = 2
   \<and> archived ''T1'' (shared (run_schedule (io_ok, Some paid_event) (io_ok, Some paid_event)
      [False, True, False, True, False, True]
      \<lparr>shared = cashfree_world, pc1 = Start, pc2 = Start\<rparr>)) = 2"
  by (simp add: both_finished_def sched_step_def webhook_step_def cashfree_world_eq
      paid_event_def io_ok_def Let_def notified_def archived_def new_payment_def)

end
